theory Spec2Isabelle
  imports Main "HOL-Library.Sublist"
begin

section \<open>JavaScript values\<close>

text \<open>
  The action receives one JSON object and navigates it with property reads, optional
  chaining and the \<^verbatim>\<open>||\<close> operator, all of which depend on the dynamic type of what they
  find. The payload is therefore kept as a JSON value. Numbers are the integers; a string
  is its sequence of code units, taken from the 8-bit alphabet; an object is the list of
  its own properties, read by name with \<open>map_of\<close>.
\<close>

datatype jsval =
    JUndefined
  | JNull
  | JBool bool
  | JNum int
  | JStr string
  | JArr "jsval list"
  | JObj "(string \<times> jsval) list"

text \<open>
  A \<^verbatim>\<open>throw\<close>, or the rejection of an awaited promise, carries any value: null and
  undefined as well as an Error. A function that can throw returns \<open>js_exn + 'a\<close>, with
  \<open>Inl\<close> for the exception. Of an Error object the code reads the \<^verbatim>\<open>message\<close> only, so
  \<^verbatim>\<open>new Error(msg)\<close> is the object with that property.
\<close>

datatype js_exn = Throw (thrown: jsval)

definition js_error :: "string \<Rightarrow> js_exn" where
  "js_error msg = Throw (JObj [(''message'', JStr msg)])"

text \<open>The TypeError of the engine; its message text is the one V8 prints.\<close>

definition type_error :: "string \<Rightarrow> js_exn" where
  "type_error msg = js_error msg"

text \<open>Truthiness, as \<^verbatim>\<open>!x\<close>, \<^verbatim>\<open>if (x)\<close>, \<^verbatim>\<open>x && y\<close> and \<^verbatim>\<open>x || y\<close> test it.\<close>

fun truthy :: "jsval \<Rightarrow> bool" where
  "truthy JUndefined = False"
| "truthy JNull = False"
| "truthy (JBool b) = b"
| "truthy (JNum n) = (n \<noteq> 0)"
| "truthy (JStr s) = (s \<noteq> [])"
| "truthy (JArr xs) = True"
| "truthy (JObj kvs) = True"

text \<open>\<^verbatim>\<open>a || b\<close> on values.\<close>

definition js_or :: "jsval \<Rightarrow> jsval \<Rightarrow> jsval" where
  "js_or a b = (if truthy a then a else b)"

fun nullish :: "jsval \<Rightarrow> bool" where
  "nullish JUndefined = True"
| "nullish JNull = True"
| "nullish v = False"

text \<open>
  \<open>lookup_prop v k\<close> is \<^verbatim>\<open>v.k\<close> for a value that is neither null nor undefined and a
  name \<open>k\<close> that is not an array index: an own property of an object, the \<^verbatim>\<open>length\<close> of
  an array or a string, and undefined otherwise. \<open>get_prop\<close> is the plain read, which
  throws on null and undefined; \<open>opt_prop\<close> is \<^verbatim>\<open>v?.k\<close>.
\<close>

fun lookup_prop :: "jsval \<Rightarrow> string \<Rightarrow> jsval" where
  "lookup_prop (JObj kvs) k = (case map_of kvs k of Some v \<Rightarrow> v | None \<Rightarrow> JUndefined)"
| "lookup_prop (JArr xs) k = (if k = ''length'' then JNum (int (length xs)) else JUndefined)"
| "lookup_prop (JStr s) k = (if k = ''length'' then JNum (int (length s)) else JUndefined)"
| "lookup_prop v k = JUndefined"

definition digit_char :: "nat \<Rightarrow> char" where
  "digit_char d = ''0123456789'' ! d"

fun dec :: "nat \<Rightarrow> string" where
  "dec n = (if n < 10 then [digit_char n] else dec (n div 10) @ [digit_char (n mod 10)])"

declare dec.simps [simp del]

definition js_join :: "string \<Rightarrow> string list \<Rightarrow> string" where
  "js_join sep xs = (case xs of [] \<Rightarrow> [] | y # ys \<Rightarrow> y @ concat (map (\<lambda>z. sep @ z) ys))"

text \<open>
  \<open>toStr v\<close> is the string a template literal \<^verbatim>\<open>`${v}`\<close> puts in place of \<open>v\<close>: an
  array is its elements joined by commas, with null and undefined elements empty.
\<close>

fun toStr :: "jsval \<Rightarrow> string" where
  "toStr JUndefined = ''undefined''"
| "toStr JNull = ''null''"
| "toStr (JBool b) = (if b then ''true'' else ''false'')"
| "toStr (JNum n) = (if n < 0 then CHR ''-'' # dec (nat (- n)) else dec (nat n))"
| "toStr (JStr s) = s"
| "toStr (JArr xs) = js_join '','' (map (\<lambda>x. if nullish x then [] else toStr x) xs)"
| "toStr (JObj kvs) = ''[object Object]''"

definition get_prop :: "jsval \<Rightarrow> string \<Rightarrow> js_exn + jsval" where
  "get_prop v k =
     (if nullish v
      then Inl (type_error (''Cannot read properties of '' @ toStr v @ '' (reading '' @
                            [CHR 0x27] @ k @ [CHR 0x27] @ '')''))
      else Inr (lookup_prop v k))"

definition opt_prop :: "jsval \<Rightarrow> string \<Rightarrow> jsval" where
  "opt_prop v k = (if nullish v then JUndefined else lookup_prop v k)"

text \<open>
  The conversion of a value to a string throws on an object with an own \<^verbatim>\<open>toString\<close>
  property, which in a JSON value is never callable, and on an array that holds such an
  object. \<open>template v\<close> is \<^verbatim>\<open>`${v}`\<close> with that exception.
\<close>

fun printable :: "jsval \<Rightarrow> bool" where
  "printable (JObj kvs) = (map_of kvs ''toString'' = None)"
| "printable (JArr xs) = list_all printable xs"
| "printable v = True"

definition template :: "jsval \<Rightarrow> js_exn + string" where
  "template v =
     (if printable v then Inr (toStr v)
      else Inl (type_error ''Cannot convert object to primitive value''))"

text \<open>\<^verbatim>\<open>v?.[0]\<close>: the first element of an array, the first character of a string.\<close>

fun opt_first :: "jsval \<Rightarrow> jsval" where
  "opt_first (JArr xs) = (case xs of [] \<Rightarrow> JUndefined | x # _ \<Rightarrow> x)"
| "opt_first (JStr s) = (case s of [] \<Rightarrow> JUndefined | c # _ \<Rightarrow> JStr [c])"
| "opt_first (JObj kvs) = lookup_prop (JObj kvs) ''0''"
| "opt_first v = JUndefined"

text \<open>
  \<^verbatim>\<open>v.includes(needle)\<close> with a string needle: a substring test on a string, a
  membership test on an array, a TypeError on everything else (no other JSON value has
  a callable \<^verbatim>\<open>includes\<close>).
\<close>

fun js_includes :: "jsval \<Rightarrow> string \<Rightarrow> js_exn + bool" where
  "js_includes (JStr s) needle = Inr (sublist needle s)"
| "js_includes (JArr xs) needle = Inr (JStr needle \<in> set xs)"
| "js_includes JUndefined needle =
     Inl (type_error ''Cannot read properties of undefined (reading 'includes')'')"
| "js_includes JNull needle =
     Inl (type_error ''Cannot read properties of null (reading 'includes')'')"
| "js_includes v needle = Inl (type_error ''includes is not a function'')"

section \<open>Phone utilities (phoneUtils.js)\<close>

definition is_digit :: "char \<Rightarrow> bool" where
  "is_digit c = (c \<in> set ''0123456789'')"

text \<open>\<^verbatim>\<open>s.replace(/[^\d+]/g, '')\<close>: every character outside the class is deleted.\<close>

definition replace_non_digit_plus :: "string \<Rightarrow> string" where
  "replace_non_digit_plus s = filter (\<lambda>c. is_digit c \<or> c = CHR ''+'') s"

text \<open>
  The result is a string or null (\<open>None\<close>). A truthy argument that is not a string has
  no \<^verbatim>\<open>replace\<close> method, and the call throws.
\<close>

definition formatPhoneNumber :: "jsval \<Rightarrow> js_exn + string option" where
  "formatPhoneNumber phoneNumber =
     (if \<not> truthy phoneNumber then Inr None
      else case phoneNumber of
        JStr s \<Rightarrow>
          (let cleaned = replace_non_digit_plus s in
           if prefix ''+'' cleaned then Inr (Some cleaned)
           else if prefix ''00'' cleaned then Inr (Some (''+'' @ drop 2 cleaned))
           else if length cleaned = 10 then Inr (Some (''+1'' @ cleaned))
           else if \<not> prefix ''+'' cleaned then Inr (Some (''+'' @ cleaned))
           else Inr (Some cleaned))
      | _ \<Rightarrow> Inl (type_error ''phoneNumber.replace is not a function''))"

definition formatPhoneForWhatsApp :: "jsval \<Rightarrow> js_exn + string option" where
  "formatPhoneForWhatsApp phoneNumber =
     (case formatPhoneNumber phoneNumber of
        Inl e \<Rightarrow> Inl e
      | Inr None \<Rightarrow> Inr None
      | Inr (Some formatted) \<Rightarrow>
          (if formatted = [] then Inr None
           else Inr (Some (if prefix ''whatsapp:'' formatted then formatted
                           else ''whatsapp:'' @ formatted))))"

text \<open>
  \<^verbatim>\<open>x > 0\<close> on a value. A string is first converted to a number, by the engine's
  numeric-literal grammar; \<open>str_pos s\<close> stands for \<^verbatim>\<open>Number(s) > 0\<close> and is a parameter.
  An array is converted through its string, an object through \<^verbatim>\<open>[object Object]\<close>,
  which is not a number.
\<close>

fun js_gt_zero :: "(string \<Rightarrow> bool) \<Rightarrow> jsval \<Rightarrow> bool" where
  "js_gt_zero str_pos (JNum n) = (0 < n)"
| "js_gt_zero str_pos (JBool b) = b"
| "js_gt_zero str_pos (JStr s) = str_pos s"
| "js_gt_zero str_pos (JArr xs) = str_pos (toStr (JArr xs))"
| "js_gt_zero str_pos v = False"

text \<open>The \<^verbatim>\<open>for (const address of orderData.addresses)\<close> loop over the elements.\<close>

fun first_telephone :: "jsval list \<Rightarrow> js_exn + jsval option" where
  "first_telephone [] = Inr None"
| "first_telephone (address # rest) =
     (case get_prop address ''telephone'' of
        Inl e \<Rightarrow> Inl e
      | Inr telephone \<Rightarrow> if truthy telephone then Inr (Some telephone) else first_telephone rest)"

text \<open>The values \<^verbatim>\<open>for ... of\<close> iterates: arrays and strings; nothing else is iterable.\<close>

fun iterate :: "jsval \<Rightarrow> js_exn + jsval list" where
  "iterate (JArr xs) = Inr xs"
| "iterate (JStr s) = Inr (map (\<lambda>c. JStr [c]) s)"
| "iterate v = Inl (type_error ''orderData.addresses is not iterable'')"

definition extractPhoneNumberFromOrder :: "(string \<Rightarrow> bool) \<Rightarrow> jsval \<Rightarrow> js_exn + jsval" where
  "extractPhoneNumberFromOrder str_pos order_data =
     (if \<not> truthy order_data then Inr JNull
      else
        let addresses = lookup_prop order_data ''addresses'';
            billing = opt_prop (lookup_prop order_data ''billing_address'') ''telephone'';
            shipping = opt_prop (lookup_prop order_data ''shipping_address'') ''telephone'';
            fallback = (if truthy billing then billing
                        else if truthy shipping then shipping
                        else JNull)
        in if truthy addresses \<and> js_gt_zero str_pos (lookup_prop addresses ''length'')
           then (case iterate addresses of
                   Inl e \<Rightarrow> Inl e
                 | Inr elems \<Rightarrow>
                     (case first_telephone elems of
                        Inl e \<Rightarrow> Inl e
                      | Inr (Some telephone) \<Rightarrow> Inr telephone
                      | Inr None \<Rightarrow> Inr fallback))
           else Inr fallback)"

section \<open>Effects and responses\<close>

text \<open>
  What a run does besides returning: the calls of the logger (level and message; a
  second argument is dropped) and the calls of the Twilio SDK, in order. A function
  with effects returns the list of its effects with its result.
\<close>

datatype log_level = INFO | DEBUG | WARN | ERROR

record message_request =
  from_number :: jsval
  to_number :: string
  body :: string

datatype effect =
    Log log_level string
  | TwilioClient jsval jsval
  | MessagesCreate message_request

definition emit :: "effect list \<Rightarrow> effect list \<times> 'a \<Rightarrow> effect list \<times> 'a" where
  "emit es r = (es @ fst r, snd r)"

text \<open>
  Modelled from the spec: \<^verbatim>\<open>errorResponse\<close> of \<^verbatim>\<open>../utils\<close>, which is not among the
  sources. The spec gives the shape of a failure as
  \<^verbatim>\<open>{error: {statusCode, body: {error: message}}}\<close>; the record holds the status code and
  the message of that shape. What the helper itself logs is not known and not modelled.
\<close>

record error_response =
  statusCode :: nat
  body_error :: string

definition errorResponse :: "nat \<Rightarrow> string \<Rightarrow> error_response" where
  "errorResponse code msg = \<lparr>statusCode = code, body_error = msg\<rparr>"

text \<open>
  The input of the action: the fields of the CloudEvents envelope and the operational
  parameters that the code reads. A field that the object lacks is \<open>JUndefined\<close>.
\<close>

record params =
  type :: jsval
  source :: jsval
  challenge :: jsval
  data :: jsval
  TWILIO_ACCOUNT_SID :: jsval
  TWILIO_AUTH_TOKEN :: jsval
  TWILIO_WHATSAPP_FROM :: jsval

section \<open>Event validator (eventValidator.js)\<close>

definition ALLOWED_EVENT_TYPES :: "string list" where
  "ALLOWED_EVENT_TYPES =
     [''com.adobe.commerce.observer.sales_order_place_after'',
      ''com.adobe.commerce.observer.sales_order_save_after'',
      ''com.adobe.commerce.observer.sales_order_shipment_save_after'',
      ''com.adobe.commerce.observer.sales_order_cancel_after'']"

definition validateCloudEventStructure :: "params \<Rightarrow> effect list \<times> error_response option" where
  "validateCloudEventStructure p =
     (if \<not> truthy (type p) \<or> \<not> truthy (source p)
      then ([Log ERROR ''Invalid event structure - missing required CloudEvents fields (type, source)''],
            Some (errorResponse 400 ''Invalid event structure''))
      else ([], None))"

definition validateCommerceEvent ::
  "params \<Rightarrow> effect list \<times> (js_exn + error_response option)" where
  "validateCommerceEvent p =
     (case (if truthy (type p) then js_includes (type p) ''com.adobe.commerce'' else Inr False) of
        Inl e \<Rightarrow> ([], Inl e)
      | Inr isCommerceEvent \<Rightarrow>
          if \<not> isCommerceEvent
          then ([Log ERROR (''Invalid event source - not a Commerce event. Event type: '' @
                            toStr (type p))],
                Inr (Some (errorResponse 400 ''Invalid event source - not a Commerce event'')))
          else if truthy (source p)
          then (case js_includes (source p) ''com.adobe.commerce'' of
                  Inl e \<Rightarrow> ([], Inl e)
                | Inr inSource \<Rightarrow>
                    if \<not> inSource
                    then ([Log WARN (''Unexpected event source: '' @ toStr (source p) @
                                     ''. Proceeding with caution.'')],
                          Inr None)
                    else ([], Inr None))
          else ([], Inr None))"

definition validateEventType :: "jsval \<Rightarrow> effect list \<times> error_response option" where
  "validateEventType eventType =
     (if eventType \<notin> set (map JStr ALLOWED_EVENT_TYPES)
      then ([Log ERROR (''Unauthorized event type: '' @ toStr eventType @ ''. Allowed types: '' @
                        js_join '', '' ALLOWED_EVENT_TYPES)],
            Some (errorResponse 400 (''Unauthorized event type: '' @ toStr eventType)))
      else ([], None))"

definition validateEvent :: "params \<Rightarrow> effect list \<times> (js_exn + error_response option)" where
  "validateEvent p =
     (case validateCloudEventStructure p of
        (es1, Some err) \<Rightarrow> (es1, Inr (Some err))
      | (es1, None) \<Rightarrow>
          (case validateCommerceEvent p of
             (es2, Inl e) \<Rightarrow> (es1 @ es2, Inl e)
           | (es2, Inr (Some err)) \<Rightarrow> (es1 @ es2, Inr (Some err))
           | (es2, Inr None) \<Rightarrow>
               (case validateEventType (type p) of
                  (es3, r) \<Rightarrow> (es1 @ es2 @ es3, Inr r))))"

section \<open>Order data extractor (orderDataExtractor.js)\<close>

definition extractShipmentData :: "jsval \<Rightarrow> jsval" where
  "extractShipmentData d = js_or (opt_prop (opt_prop d ''value'') ''shipment'') JNull"

text \<open>
  In the first branch \<^verbatim>\<open>shipmentData\<close> is truthy, so the plain read of its \<^verbatim>\<open>order\<close>
  cannot throw.
\<close>

definition extractOrderData :: "jsval \<Rightarrow> jsval \<Rightarrow> bool \<Rightarrow> jsval" where
  "extractOrderData d shipment_data isShipmentEvent =
     (if isShipmentEvent \<and> truthy shipment_data
      then js_or (js_or (js_or (lookup_prop shipment_data ''order'')
                               (opt_prop (opt_prop d ''value'') ''order''))
                        (opt_prop d ''value''))
                 JNull
      else js_or (js_or (opt_prop (opt_prop d ''value'') ''order'') (opt_prop d ''value'')) JNull)"

record event_data =
  orderData :: jsval
  shipmentData :: jsval

definition extractEventData ::
  "params \<Rightarrow> jsval \<Rightarrow> effect list \<times> (js_exn + (error_response + event_data))" where
  "extractEventData p eventType =
     (case js_includes eventType ''sales_order_shipment_save_after'' of
        Inl e \<Rightarrow> ([], Inl e)
      | Inr isShipmentEvent \<Rightarrow>
          (let shipment_data = (if isShipmentEvent then extractShipmentData (data p) else JNull);
               order_data = extractOrderData (data p) shipment_data isShipmentEvent
           in if \<not> truthy order_data
              then (if isShipmentEvent \<and> \<not> truthy shipment_data
                    then ([Log ERROR ''No shipment or order data found in shipment event''],
                          Inr (Inl (errorResponse 400 ''Missing shipment data'')))
                    else ([Log ERROR ''No order data found in event''],
                          Inr (Inl (errorResponse 400 ''Missing order data''))))
              else ([], Inr (Inr \<lparr>orderData = order_data, shipmentData = shipment_data\<rparr>))))"

text \<open>\<^verbatim>\<open>s.trim()\<close>: the white space of the 8-bit alphabet is removed at both ends.\<close>

definition is_space :: "char \<Rightarrow> bool" where
  "is_space c = (c \<in> set [CHR 0x09, CHR 0x0A, CHR 0x0B, CHR 0x0C, CHR 0x0D, CHR 0x20, CHR 0xA0])"

definition trim :: "string \<Rightarrow> string" where
  "trim s = rev (dropWhile is_space (rev (dropWhile is_space s)))"

record order_info =
  orderNumber :: jsval
  customerEmail :: jsval
  customerName :: string
  orderTotal :: jsval
  orderCurrency :: jsval
  orderStatus :: jsval

definition extractOrderInfo :: "jsval \<Rightarrow> js_exn + order_info" where
  "extractOrderInfo order_data =
     (case get_prop order_data ''increment_id'' of
        Inl e \<Rightarrow> Inl e
      | Inr increment_id \<Rightarrow>
          Inr \<lparr>orderNumber = js_or increment_id (lookup_prop order_data ''entity_id''),
               customerEmail = lookup_prop order_data ''customer_email'',
               customerName =
                 trim (toStr (js_or (lookup_prop order_data ''customer_firstname'') (JStr [])) @
                       '' '' @
                       toStr (js_or (lookup_prop order_data ''customer_lastname'') (JStr []))),
               orderTotal = lookup_prop order_data ''grand_total'',
               orderCurrency = lookup_prop order_data ''order_currency_code'',
               orderStatus = js_or (lookup_prop order_data ''status'')
                                   (lookup_prop order_data ''state'')\<rparr>)"

section \<open>Message generator (messageGenerator.js)\<close>

definition generateOrderPlacedMessage :: "jsval \<Rightarrow> jsval \<Rightarrow> jsval \<Rightarrow> jsval \<Rightarrow> string" where
  "generateOrderPlacedMessage customer_name order_number order_total order_currency =
     ''Hi '' @ toStr customer_name @ '', your order #'' @ toStr order_number @ '' for '' @
     toStr order_total @ '' '' @ toStr order_currency @
     '' has been confirmed. Thank you for your purchase!''"

definition generateOrderStatusChangeMessage :: "jsval \<Rightarrow> jsval \<Rightarrow> jsval \<Rightarrow> string" where
  "generateOrderStatusChangeMessage customer_name order_number order_status =
     ''Hi '' @ toStr customer_name @ '', your order #'' @ toStr order_number @
     '' status has been updated to '' @ toStr order_status @ ''.''"

definition generateShipmentMessage :: "jsval \<Rightarrow> jsval \<Rightarrow> jsval \<Rightarrow> string" where
  "generateShipmentMessage customer_name order_number trackingNumber =
     (if truthy trackingNumber
      then ''Hi '' @ toStr customer_name @ '', your order #'' @ toStr order_number @
           '' has been shipped! Track your package using tracking number '' @
           toStr trackingNumber @ ''.''
      else ''Hi '' @ toStr customer_name @ '', your order #'' @ toStr order_number @
           '' has been shipped!'')"

definition generateCancellationMessage :: "jsval \<Rightarrow> jsval \<Rightarrow> string" where
  "generateCancellationMessage customer_name order_number =
     ''Hi '' @ toStr customer_name @ '', your order #'' @ toStr order_number @
     '' has been cancelled. If you have any questions, please contact us.''"

text \<open>The first read, \<^verbatim>\<open>orderData.grand_total\<close>, throws when the order is null or undefined.\<close>

definition generateMessageByEventType ::
  "jsval \<Rightarrow> jsval \<Rightarrow> jsval \<Rightarrow> jsval \<Rightarrow> jsval \<Rightarrow> js_exn + string" where
  "generateMessageByEventType eventType order_data customer_name order_number shipment_data =
     (let isOrderCancelled = (eventType = JStr ''com.adobe.commerce.observer.sales_order_cancel_after'');
          isOrderPlaced = (eventType = JStr ''com.adobe.commerce.observer.sales_order_place_after'');
          isShipmentCreated =
            (eventType = JStr ''com.adobe.commerce.observer.sales_order_shipment_save_after'');
          isOrderSaved = (eventType = JStr ''com.adobe.commerce.observer.sales_order_save_after'')
      in case get_prop order_data ''grand_total'' of
           Inl e \<Rightarrow> Inl e
         | Inr order_total \<Rightarrow>
             (let order_currency = lookup_prop order_data ''order_currency_code'';
                  order_status = js_or (lookup_prop order_data ''status'')
                                       (lookup_prop order_data ''state'')
              in if isOrderCancelled
                 then Inr (generateCancellationMessage customer_name order_number)
                 else if isOrderPlaced
                 then Inr (generateOrderPlacedMessage customer_name order_number
                             order_total order_currency)
                 else if isShipmentCreated
                 then (let trackingNumber =
                             js_or (opt_prop (opt_first (opt_prop shipment_data ''tracks''))
                                      ''track_number'')
                                   (opt_prop (opt_first (opt_prop shipment_data ''tracks''))
                                      ''number'')
                       in Inr (generateShipmentMessage customer_name order_number trackingNumber))
                 else if isOrderSaved \<and> truthy order_status
                 then Inr (generateOrderStatusChangeMessage customer_name order_number order_status)
                 else Inr (generateOrderPlacedMessage customer_name order_number
                             order_total order_currency)))"

section \<open>Twilio service (twilioService.js)\<close>

text \<open>
  The SDK is a parameter: \<^verbatim>\<open>twilio(accountSid, authToken)\<close> returns a client or throws,
  and the client's \<^verbatim>\<open>messages.create\<close> resolves to a value or rejects with one.
\<close>

type_synonym twilio_client = "message_request \<Rightarrow> js_exn + jsval"

type_synonym twilio_sdk = "jsval \<Rightarrow> jsval \<Rightarrow> js_exn + twilio_client"

text \<open>The object the adapter returns; a key that the object lacks is \<open>None\<close>.\<close>

record send_result =
  success :: bool
  messageSid :: "jsval option"
  messageStatus :: "jsval option"
  error :: "jsval option"

text \<open>
  The body of the \<^verbatim>\<open>try\<close> block. The read of \<^verbatim>\<open>twilioMessage.sid\<close> throws on null and
  undefined, and the template of the log line throws on a \<^verbatim>\<open>sid\<close> with no string.
\<close>

definition sendWhatsAppMessage_try ::
  "twilio_sdk \<Rightarrow> jsval \<Rightarrow> jsval \<Rightarrow> jsval \<Rightarrow> jsval \<Rightarrow> string \<Rightarrow>
   effect list \<times> (js_exn + send_result)" where
  "sendWhatsAppMessage_try twilio accountSid authToken fromNumber toPhoneNumber msg =
     emit [TwilioClient accountSid authToken]
       (case twilio accountSid authToken of
          Inl e \<Rightarrow> ([], Inl e)
        | Inr twilioClient \<Rightarrow>
            (case formatPhoneForWhatsApp toPhoneNumber of
               Inl e \<Rightarrow> ([], Inl e)
             | Inr None \<Rightarrow> ([], Inl (js_error ''Invalid phone number format''))
             | Inr (Some whatsappTo) \<Rightarrow>
                 (let request = \<lparr>from_number = fromNumber, to_number = whatsappTo, body = msg\<rparr>
                  in emit [Log INFO (''Sending WhatsApp to '' @ whatsappTo),
                           MessagesCreate request]
                       (case twilioClient request of
                          Inl e \<Rightarrow> ([], Inl e)
                        | Inr twilioMessage \<Rightarrow>
                            (case get_prop twilioMessage ''sid'' of
                               Inl e \<Rightarrow> ([], Inl e)
                             | Inr sid \<Rightarrow>
                                 (case template sid of
                                    Inl e \<Rightarrow> ([], Inl e)
                                  | Inr sid_text \<Rightarrow>
                                      ([Log INFO (''WhatsApp message sent successfully. SID: '' @
                                                  sid_text)],
                                       Inr \<lparr>success = True, messageSid = Some sid,
                                            messageStatus =
                                              Some (lookup_prop twilioMessage ''status''),
                                            error = None\<rparr>)))))))"

text \<open>
  The body of the \<^verbatim>\<open>catch\<close> block, after the effects \<open>es\<close> of the \<^verbatim>\<open>try\<close> block. The
  read of \<^verbatim>\<open>error.message\<close> throws when the caught value is null or undefined, and the
  template of the log line throws on a message with no string; both exceptions leave
  the function.
\<close>

definition sendWhatsAppMessage_catch ::
  "effect list \<Rightarrow> js_exn \<Rightarrow> effect list \<times> (js_exn + send_result)" where
  "sendWhatsAppMessage_catch es e =
     (case get_prop (thrown e) ''message'' of
        Inl e' \<Rightarrow> (es, Inl e')
      | Inr error_message \<Rightarrow>
          (let errorMessage = js_or error_message (JStr ''Unknown Twilio error'')
           in case template errorMessage of
                Inl e' \<Rightarrow> (es, Inl e')
              | Inr text \<Rightarrow>
                  (es @ [Log ERROR (''Failed to send WhatsApp message: '' @ text)],
                   Inr \<lparr>success = False, messageSid = None, messageStatus = None,
                        error = Some errorMessage\<rparr>)))"

text \<open>
  The destructuring of \<^verbatim>\<open>config\<close>, before the \<^verbatim>\<open>try\<close>, throws on null and undefined;
  on any other value a property that it lacks is undefined.
\<close>

definition sendWhatsAppMessage ::
  "twilio_sdk \<Rightarrow> jsval \<Rightarrow> jsval \<Rightarrow> string \<Rightarrow> effect list \<times> (js_exn + send_result)" where
  "sendWhatsAppMessage twilio config toPhoneNumber msg =
     (if nullish config
      then ([], Inl (type_error (''Cannot destructure property 'accountSid' of 'config' as it is '' @
                                 toStr config @ ''.'')))
      else
        (let accountSid = lookup_prop config ''accountSid'';
             authToken = lookup_prop config ''authToken'';
             fromNumber = lookup_prop config ''fromNumber''
         in if \<not> truthy accountSid \<or> \<not> truthy authToken \<or> \<not> truthy fromNumber
            then ([Log WARN ''Twilio configuration missing - WhatsApp notifications will not be sent''],
                  Inr \<lparr>success = False, messageSid = None, messageStatus = None,
                       error = Some (JStr ''Twilio configuration missing - WhatsApp notifications will not be sent'')\<rparr>)
            else (case sendWhatsAppMessage_try twilio accountSid authToken fromNumber
                         toPhoneNumber msg of
                    (es, Inr r) \<Rightarrow> (es, Inr r)
                  | (es, Inl e) \<Rightarrow> sendWhatsAppMessage_catch es e)))"

section \<open>Orchestrator (index.js)\<close>

text \<open>
  What the action needs from outside: the Twilio SDK, \<^verbatim>\<open>stringParameters\<close> of
  \<^verbatim>\<open>../utils\<close> (not among the sources; its string is only logged), and the engine's
  conversion of a string to a number, as \<open>js_gt_zero\<close> uses it.
\<close>

record runtime =
  twilio :: twilio_sdk
  stringParameters :: "params \<Rightarrow> string"
  string_gt_zero :: "string \<Rightarrow> bool"

record notification_body =
  body_success :: bool
  body_message :: string
  body_orderNumber :: jsval
  customerPhone :: jsval
  whatsappSent :: bool
  whatsappError :: "jsval option"

text \<open>
  The three shapes \<^verbatim>\<open>main\<close> returns: \<^verbatim>\<open>{statusCode, body: {challenge}}\<close>,
  \<^verbatim>\<open>{statusCode, body: responseBody}\<close> and the failure shape of \<open>errorResponse\<close>.
\<close>

datatype response =
    ChallengeResponse nat jsval
  | NotificationResponse nat notification_body
  | Failure error_response

text \<open>The object literal of lines 78 to 82 of \<^verbatim>\<open>main\<close>.\<close>

definition twilioConfig :: "params \<Rightarrow> jsval" where
  "twilioConfig p =
     JObj [(''accountSid'', TWILIO_ACCOUNT_SID p), (''authToken'', TWILIO_AUTH_TOKEN p),
           (''fromNumber'', TWILIO_WHATSAPP_FROM p)]"

text \<open>Lines 68 to 106 of \<^verbatim>\<open>main\<close>: the message, the call of the adapter, the response.\<close>

definition sendAndRespond ::
  "runtime \<Rightarrow> params \<Rightarrow> event_data \<Rightarrow> order_info \<Rightarrow> jsval \<Rightarrow> effect list \<times> (js_exn + response)" where
  "sendAndRespond rt p ed info customer_phone =
     (case generateMessageByEventType (type p) (orderData ed) (JStr (customerName info))
             (orderNumber info) (shipmentData ed) of
        Inl e \<Rightarrow> ([], Inl e)
      | Inr msg \<Rightarrow>
          (case sendWhatsAppMessage (twilio rt) (twilioConfig p) customer_phone msg of
             (es, Inl e) \<Rightarrow> (es, Inl e)
           | (es, Inr twilioResult) \<Rightarrow>
               (es @ [Log INFO (''Request completed successfully. WhatsApp sent: '' @
                                toStr (JBool (success twilioResult)))],
                Inr (NotificationResponse 200
                       \<lparr>body_success = True,
                        body_message = ''Order notification processed'',
                        body_orderNumber = orderNumber info,
                        customerPhone = customer_phone,
                        whatsappSent = success twilioResult,
                        whatsappError =
                          (case error twilioResult of
                             None \<Rightarrow> None
                           | Some err \<Rightarrow> if truthy err then Some err else None)\<rparr>))))"

text \<open>Lines 55 to 66 of \<^verbatim>\<open>main\<close>: the order information and the customer's phone.\<close>

definition notify ::
  "runtime \<Rightarrow> params \<Rightarrow> event_data \<Rightarrow> effect list \<times> (js_exn + response)" where
  "notify rt p ed =
     (case extractOrderInfo (orderData ed) of
        Inl e \<Rightarrow> ([], Inl e)
      | Inr info \<Rightarrow>
          emit [Log INFO (''Processing order '' @ toStr (orderNumber info) @ '' for customer '' @
                          toStr (customerEmail info))]
            (case extractPhoneNumberFromOrder (string_gt_zero rt) (orderData ed) of
               Inl e \<Rightarrow> ([], Inl e)
             | Inr customer_phone \<Rightarrow>
                 if \<not> truthy customer_phone
                 then ([Log WARN (''No phone number found for order '' @ toStr (orderNumber info))],
                       Inr (Failure (errorResponse 400 ''Customer phone number not found'')))
                 else sendAndRespond rt p ed info customer_phone))"

text \<open>The body of the \<^verbatim>\<open>try\<close> block of \<^verbatim>\<open>main\<close>.\<close>

definition main_try :: "runtime \<Rightarrow> params \<Rightarrow> effect list \<times> (js_exn + response)" where
  "main_try rt p =
     emit [Log INFO ''Processing order notification event'', Log DEBUG (stringParameters rt p)]
       (if truthy (challenge p)
        then ([Log INFO ''Received webhook verification challenge''],
              Inr (ChallengeResponse 200 (challenge p)))
        else (case validateEvent p of
                (es, Inl e) \<Rightarrow> (es, Inl e)
              | (es, Inr (Some validationError)) \<Rightarrow> (es, Inr (Failure validationError))
              | (es, Inr None) \<Rightarrow>
                  emit (es @ [Log INFO (''Processing event type: '' @ toStr (type p))])
                    (case extractEventData p (type p) of
                       (es2, Inl e) \<Rightarrow> (es2, Inl e)
                     | (es2, Inr (Inl extractionError)) \<Rightarrow> (es2, Inr (Failure extractionError))
                     | (es2, Inr (Inr ed)) \<Rightarrow> emit es2 (notify rt p ed))))"

definition main :: "runtime \<Rightarrow> params \<Rightarrow> effect list \<times> response" where
  "main rt p =
     (case main_try rt p of
        (es, Inr r) \<Rightarrow> (es, r)
      | (es, Inl e) \<Rightarrow>
          (es @ [Log ERROR ''Unexpected error processing order notification''],
           Failure (errorResponse 500 ''Internal server error'')))"

section \<open>Inputs of the test suite (order-notification.test.js)\<close>

text \<open>An input object with the envelope fields only: no challenge, no Twilio parameters.\<close>

definition envelope :: "jsval \<Rightarrow> jsval \<Rightarrow> jsval \<Rightarrow> params" where
  "envelope t s d =
     \<lparr>type = t, source = s, challenge = JUndefined, data = d,
      TWILIO_ACCOUNT_SID = JUndefined, TWILIO_AUTH_TOKEN = JUndefined,
      TWILIO_WHATSAPP_FROM = JUndefined\<rparr>"

definition mockOrder :: jsval where
  "mockOrder =
     JObj [(''increment_id'', JStr ''000000008''),
           (''customer_email'', JStr ''test@example.com''),
           (''customer_firstname'', JStr ''Test''),
           (''customer_lastname'', JStr ''Customer''),
           (''addresses'', JArr [JObj [(''telephone'', JStr ''1234567890'')]]),
           (''grand_total'', JNum 100),
           (''order_currency_code'', JStr ''USD'')]"

definition mockOrderPlacedEvent :: params where
  "mockOrderPlacedEvent =
     envelope (JStr ''com.adobe.commerce.observer.sales_order_place_after'')
       (JStr ''com.adobe.commerce'') (JObj [(''value'', JObj [(''order'', mockOrder)])])"

definition mockTwilioConfig :: jsval where
  "mockTwilioConfig =
     JObj [(''accountSid'', JStr ''test_sid''), (''authToken'', JStr ''test_token''),
           (''fromNumber'', JStr ''whatsapp:+1234567890'')]"

text \<open>An SDK whose \<^verbatim>\<open>messages.create\<close> resolves to \<open>r\<close>, and one whose call rejects with \<open>e\<close>.\<close>

definition mockResolvedValue :: "jsval \<Rightarrow> twilio_sdk" where
  "mockResolvedValue r = (\<lambda>account token. Inr (\<lambda>request. Inr r))"

definition mockRejectedValue :: "js_exn \<Rightarrow> twilio_sdk" where
  "mockRejectedValue e = (\<lambda>account token. Inr (\<lambda>request. Inl e))"

definition mockRuntime :: "twilio_sdk \<Rightarrow> runtime" where
  "mockRuntime sdk =
     \<lparr>twilio = sdk, stringParameters = (\<lambda>p. ''{}''), string_gt_zero = (\<lambda>s. False)\<rparr>"

section \<open>Properties of the phone utilities\<close>

lemma replace_non_digit_plus_Nil_iff:
  "replace_non_digit_plus s = [] \<longleftrightarrow> (\<forall>c\<in>set s. \<not> is_digit c \<and> c \<noteq> CHR ''+'')"
  by (auto simp: replace_non_digit_plus_def filter_empty_conv)

lemma formatPhoneNumber_string:
  assumes "s \<noteq> []"
  shows "\<exists>r. formatPhoneNumber (JStr s) = Inr (Some (CHR ''+'' # r))"
proof -
  let ?c = "replace_non_digit_plus s"
  show ?thesis
  proof (cases "prefix ''+'' ?c")
    case True
    then obtain r where "?c = CHR ''+'' # r"
      by (auto simp: prefix_def)
    with assms True show ?thesis
      by (simp add: formatPhoneNumber_def Let_def)
  next
    case False
    with assms show ?thesis
      by (simp add: formatPhoneNumber_def Let_def)
  qed
qed

text \<open>
  The rules of the formatter in their order, for a telephone string whose cleaned form
  has no \<open>+\<close> after its first character.
\<close>

lemma formatPhoneNumber_rules:
  assumes "s \<noteq> []" and "CHR ''+'' \<notin> set (tl (replace_non_digit_plus s))"
  shows "formatPhoneNumber (JStr s) = Inr (Some
           (let c = replace_non_digit_plus s in
            if prefix ''+'' c then c
            else if prefix ''00'' c then ''+'' @ drop 2 c
            else if length c = 10 \<and> (\<forall>x\<in>set c. is_digit x) then ''+1'' @ c
            else ''+'' @ c))"
proof -
  let ?c = "replace_non_digit_plus s"
  have all: "\<forall>x\<in>set ?c. is_digit x \<or> x = CHR ''+''"
    by (simp add: replace_non_digit_plus_def)
  have digits: "\<forall>x\<in>set ?c. is_digit x" if "\<not> prefix ''+'' ?c"
  proof (cases ?c)
    case Nil
    then show ?thesis by simp
  next
    case (Cons a as)
    with that have "a \<noteq> CHR ''+''" by simp
    moreover from assms(2) Cons have "CHR ''+'' \<notin> set as" by simp
    ultimately show ?thesis using all Cons by auto
  qed
  show ?thesis
    using assms(1) digits by (auto simp: formatPhoneNumber_def Let_def)
qed

text \<open>The three examples of the specification.\<close>

lemma formatPhoneNumber_examples:
  "formatPhoneNumber (JStr ''+14155552671'') = Inr (Some ''+14155552671'')"
  "formatPhoneNumber (JStr ''001234567890'') = Inr (Some ''+1234567890'')"
  "formatPhoneNumber (JStr ''1234567890'') = Inr (Some ''+11234567890'')"
  by (simp_all add: formatPhoneNumber_def replace_non_digit_plus_def is_digit_def Let_def)

text \<open>
  C3. The formatter applies its rules in order: null for an empty input, a cleaned
  string that starts with \<open>+\<close> unchanged, \<open>00\<close> replaced by \<open>+\<close>, \<open>+1\<close> before exactly ten
  digits, \<open>+\<close> before any other string. The code tests the length of the cleaned string,
  which still holds every \<open>+\<close> of the input: on \<open>123+456789\<close>, nine digits and a \<open>+\<close>, it
  takes the ten-digit rule.
\<close>

theorem formatPhoneNumber_ten_chars_with_plus:
  "formatPhoneNumber (JStr ''123+456789'') = Inr (Some ''+1123+456789'')"
  by (simp add: formatPhoneNumber_def replace_non_digit_plus_def is_digit_def Let_def)

text \<open>
  C7. The result of the formatter has digits only after an optional leading \<open>+\<close>. The
  code's character class keeps every \<open>+\<close>, wherever it stands: on \<open>12+34\<close> the result is
  \<open>+12+34\<close>.
\<close>

theorem formatPhoneNumber_keeps_inner_plus:
  "formatPhoneNumber (JStr ''12+34'') = Inr (Some ''+12+34'')"
  by (simp add: formatPhoneNumber_def replace_non_digit_plus_def is_digit_def Let_def)

text \<open>
  C10. The formatter returns null exactly on a falsy argument, so on null, undefined and
  the empty string; on every non-empty string it returns a non-empty string. A string
  with no digit and no \<open>+\<close> gives the bare \<open>+\<close>, and the WhatsApp formatter then gives
  \<open>whatsapp:+\<close>, not null.
\<close>

theorem formatPhoneNumber_null_iff:
  "(formatPhoneNumber v = Inr None \<longleftrightarrow> \<not> truthy v) \<and>
   formatPhoneNumber JNull = Inr None \<and>
   formatPhoneNumber JUndefined = Inr None \<and>
   (formatPhoneNumber (JStr s) = Inr None \<longleftrightarrow> s = []) \<and>
   (s \<noteq> [] \<longrightarrow> (\<exists>r. formatPhoneNumber (JStr s) = Inr (Some r) \<and> r \<noteq> [])) \<and>
   (s \<noteq> [] \<and> (\<forall>c\<in>set s. \<not> is_digit c \<and> c \<noteq> CHR ''+'') \<longrightarrow>
      formatPhoneNumber (JStr s) = Inr (Some ''+'') \<and>
      formatPhoneForWhatsApp (JStr s) = Inr (Some ''whatsapp:+''))"
proof -
  have a: "formatPhoneNumber v = Inr None \<longleftrightarrow> \<not> truthy v"
    by (cases v) (auto simp: formatPhoneNumber_def Let_def)
  have b: "formatPhoneNumber (JStr s) = Inr None \<longleftrightarrow> s = []"
    by (auto simp: formatPhoneNumber_def Let_def)
  have c: "\<exists>r. formatPhoneNumber (JStr s) = Inr (Some r) \<and> r \<noteq> []" if "s \<noteq> []"
    using formatPhoneNumber_string [OF that] by auto
  have d: "formatPhoneNumber (JStr s) = Inr (Some ''+'')"
    if "s \<noteq> []" and "\<forall>c\<in>set s. \<not> is_digit c \<and> c \<noteq> CHR ''+''"
  proof -
    from that(2) have "replace_non_digit_plus s = []"
      by (simp add: replace_non_digit_plus_Nil_iff)
    with that(1) show ?thesis
      by (simp add: formatPhoneNumber_def Let_def)
  qed
  have e: "formatPhoneForWhatsApp (JStr s) = Inr (Some ''whatsapp:+'')"
    if "s \<noteq> []" and "\<forall>c\<in>set s. \<not> is_digit c \<and> c \<noteq> CHR ''+''"
    using d [OF that] by (simp add: formatPhoneForWhatsApp_def)
  have f: "formatPhoneNumber JNull = Inr None" "formatPhoneNumber JUndefined = Inr None"
    by (simp_all add: formatPhoneNumber_def)
  from a b c d e f show ?thesis by blast
qed

theorem formatPhoneNumber_null_iff_witness:
  "formatPhoneNumber (JStr ''call me'') = Inr (Some ''+'') \<and>
   formatPhoneForWhatsApp (JStr ''call me'') = Inr (Some ''whatsapp:+'') \<and>
   formatPhoneNumber (JStr []) = Inr None"
  using formatPhoneNumber_null_iff [of "JStr ''call me''" "''call me''"]
    formatPhoneNumber_null_iff [of JNull "[]"]
  by (simp add: is_digit_def)

section \<open>Properties of the event validator\<close>

lemma allowed_types_commerce:
  "t \<in> set ALLOWED_EVENT_TYPES \<Longrightarrow> sublist ''com.adobe.commerce'' t"
  by (auto simp: ALLOWED_EVENT_TYPES_def)

lemma validateEvent_structure:
  "\<not> truthy (type p) \<or> \<not> truthy (source p) \<Longrightarrow>
     validateEvent p =
       ([Log ERROR ''Invalid event structure - missing required CloudEvents fields (type, source)''],
        Inr (Some (errorResponse 400 ''Invalid event structure'')))"
  by (auto simp: validateEvent_def validateCloudEventStructure_def)

lemma validateEvent_not_commerce:
  "type p = JStr t \<Longrightarrow> t \<noteq> [] \<Longrightarrow> truthy (source p) \<Longrightarrow> \<not> sublist ''com.adobe.commerce'' t \<Longrightarrow>
     validateEvent p =
       ([Log ERROR (''Invalid event source - not a Commerce event. Event type: '' @ t)],
        Inr (Some (errorResponse 400 ''Invalid event source - not a Commerce event'')))"
  by (simp add: validateEvent_def validateCloudEventStructure_def validateCommerceEvent_def)

lemma validateEvent_unauthorized:
  "type p = JStr t \<Longrightarrow> sublist ''com.adobe.commerce'' t \<Longrightarrow> source p = JStr s \<Longrightarrow> s \<noteq> [] \<Longrightarrow>
   t \<notin> set ALLOWED_EVENT_TYPES \<Longrightarrow>
     snd (validateEvent p) = Inr (Some (errorResponse 400 (''Unauthorized event type: '' @ t))) \<and>
     Log ERROR (''Unauthorized event type: '' @ t @ ''. Allowed types: '' @
                js_join '', '' ALLOWED_EVENT_TYPES) \<in> set (fst (validateEvent p))"
  by (auto simp: validateEvent_def validateCloudEventStructure_def validateCommerceEvent_def
      validateEventType_def)

lemma validateEvent_pass:
  "type p = JStr t \<Longrightarrow> t \<in> set ALLOWED_EVENT_TYPES \<Longrightarrow> source p = JStr s \<Longrightarrow> s \<noteq> [] \<Longrightarrow>
     snd (validateEvent p) = Inr None"
  using allowed_types_commerce [of t]
  by (auto simp: validateEvent_def validateCloudEventStructure_def validateCommerceEvent_def
      validateEventType_def)

lemma validateEvent_pass_warn:
  "type p = JStr t \<Longrightarrow> t \<in> set ALLOWED_EVENT_TYPES \<Longrightarrow> source p = JStr s \<Longrightarrow> s \<noteq> [] \<Longrightarrow>
   \<not> sublist ''com.adobe.commerce'' s \<Longrightarrow>
     validateEvent p =
       ([Log WARN (''Unexpected event source: '' @ s @ ''. Proceeding with caution.'')], Inr None)"
  using allowed_types_commerce [of t]
  by (auto simp: validateEvent_def validateCloudEventStructure_def validateCommerceEvent_def
      validateEventType_def)

lemma validateEvent_accepted_fields:
  assumes "snd (validateEvent p) = Inr None"
  shows "truthy (type p) \<and> truthy (source p) \<and> type p \<in> set (map JStr ALLOWED_EVENT_TYPES)"
  using assms
  by (auto simp: validateEvent_def validateCloudEventStructure_def validateCommerceEvent_def
      validateEventType_def split: if_splits sum.splits option.splits prod.splits)

text \<open>
  C5. On an envelope whose \<open>type\<close> and \<open>source\<close> are strings or missing, the validator
  runs three checks in order and stops at the first failure: a missing \<open>type\<close> or
  \<open>source\<close> gives 400 \<open>Invalid event structure\<close>; a \<open>type\<close> without the vendor namespace gives
  400 \<open>Invalid event source - not a Commerce event\<close>; a \<open>type\<close> outside the allow-list
  gives 400 \<open>Unauthorized event type: \<close> followed by the type. The allow-list is in the
  logged error, not in the message of the response. When all three pass the result is
  null.
\<close>

theorem validateEvent_checks:
  "(\<not> truthy (type p) \<or> \<not> truthy (source p) \<longrightarrow>
      snd (validateEvent p) = Inr (Some (errorResponse 400 ''Invalid event structure''))) \<and>
   (type p = JStr t \<and> t \<noteq> [] \<and> truthy (source p) \<and> \<not> sublist ''com.adobe.commerce'' t \<longrightarrow>
      snd (validateEvent p) =
        Inr (Some (errorResponse 400 ''Invalid event source - not a Commerce event''))) \<and>
   (type p = JStr t \<and> sublist ''com.adobe.commerce'' t \<and> source p = JStr s \<and> s \<noteq> [] \<and>
    t \<notin> set ALLOWED_EVENT_TYPES \<longrightarrow>
      snd (validateEvent p) =
        Inr (Some (errorResponse 400 (''Unauthorized event type: '' @ t))) \<and>
      Log ERROR (''Unauthorized event type: '' @ t @ ''. Allowed types: '' @
                 js_join '', '' ALLOWED_EVENT_TYPES) \<in> set (fst (validateEvent p))) \<and>
   (type p = JStr t \<and> t \<in> set ALLOWED_EVENT_TYPES \<and> source p = JStr s \<and> s \<noteq> [] \<longrightarrow>
      snd (validateEvent p) = Inr None)"
proof -
  have "snd (validateEvent p) = Inr (Some (errorResponse 400 ''Invalid event structure''))"
    if "\<not> truthy (type p) \<or> \<not> truthy (source p)"
    using validateEvent_structure [OF that] by simp
  moreover have "snd (validateEvent p) =
      Inr (Some (errorResponse 400 ''Invalid event source - not a Commerce event''))"
    if "type p = JStr t" "t \<noteq> []" "truthy (source p)" "\<not> sublist ''com.adobe.commerce'' t"
    using validateEvent_not_commerce [OF that] by simp
  ultimately show ?thesis
    using validateEvent_unauthorized [of p t s] validateEvent_pass [of p t s] by blast
qed

theorem validateEvent_checks_witness:
  "snd (validateEvent (envelope JUndefined (JStr ''com.example'') JUndefined)) =
     Inr (Some (errorResponse 400 ''Invalid event structure'')) \<and>
   snd (validateEvent (envelope (JStr ''com.example.event'') (JStr ''com.example'') JUndefined)) =
     Inr (Some (errorResponse 400 ''Invalid event source - not a Commerce event'')) \<and>
   snd (validateEvent (envelope (JStr ''com.adobe.commerce.observer.unknown_event'')
          (JStr ''com.adobe.commerce'') JUndefined)) =
     Inr (Some (errorResponse 400
       ''Unauthorized event type: com.adobe.commerce.observer.unknown_event'')) \<and>
   snd (validateEvent mockOrderPlacedEvent) = Inr None"
  using
    validateEvent_checks [where p = "envelope JUndefined (JStr ''com.example'') JUndefined"]
    validateEvent_checks [where p = "envelope (JStr ''com.example.event'') (JStr ''com.example'')
        JUndefined" and t = "''com.example.event''"]
    validateEvent_checks [where p = "envelope (JStr ''com.adobe.commerce.observer.unknown_event'')
        (JStr ''com.adobe.commerce'') JUndefined"
      and t = "''com.adobe.commerce.observer.unknown_event''" and s = "''com.adobe.commerce''"]
    validateEvent_checks [where p = mockOrderPlacedEvent
      and t = "''com.adobe.commerce.observer.sales_order_place_after''"
      and s = "''com.adobe.commerce''"]
  by (simp add: envelope_def mockOrderPlacedEvent_def ALLOWED_EVENT_TYPES_def sublist_Cons_right)

text \<open>
  C5, as it is written, asks for the allow-list in the message of the 400. The message
  for the type \<open>com.adobe.commerce.observer.unknown_event\<close> holds the type only; the first
  entry of the allow-list does not occur in it.
\<close>

theorem validateEvent_message_without_allow_list:
  "snd (validateEvent (envelope (JStr ''com.adobe.commerce.observer.unknown_event'')
          (JStr ''com.adobe.commerce'') JUndefined)) =
     Inr (Some \<lparr>statusCode = 400,
                body_error = ''Unauthorized event type: com.adobe.commerce.observer.unknown_event''\<rparr>) \<and>
   \<not> sublist ''com.adobe.commerce.observer.sales_order_place_after''
       ''Unauthorized event type: com.adobe.commerce.observer.unknown_event''"
  by (simp add: envelope_def validateEvent_def validateCloudEventStructure_def
      validateCommerceEvent_def validateEventType_def errorResponse_def ALLOWED_EVENT_TYPES_def
      sublist_Cons_right)

text \<open>
  C8. An envelope that the validator accepts has a non-empty \<open>source\<close> and a \<open>type\<close> that
  is one of the four allowed strings, each of which contains \<open>com.adobe.commerce\<close>. The
  \<open>source\<close> need not contain that namespace: an envelope with an allowed \<open>type\<close> and a
  \<open>source\<close> string without it is accepted, with one logged warning.
\<close>

theorem validateEvent_accepted:
  "(snd (validateEvent p) = Inr None \<longrightarrow>
      truthy (source p) \<and>
      (\<exists>t. type p = JStr t \<and> t \<in> set ALLOWED_EVENT_TYPES \<and> sublist ''com.adobe.commerce'' t)) \<and>
   (type p = JStr t \<and> t \<in> set ALLOWED_EVENT_TYPES \<and> source p = JStr s \<and> s \<noteq> [] \<and>
    \<not> sublist ''com.adobe.commerce'' s \<longrightarrow>
      validateEvent p =
        ([Log WARN (''Unexpected event source: '' @ s @ ''. Proceeding with caution.'')],
         Inr None))"
proof -
  have "truthy (source p) \<and>
      (\<exists>t. type p = JStr t \<and> t \<in> set ALLOWED_EVENT_TYPES \<and> sublist ''com.adobe.commerce'' t)"
    if "snd (validateEvent p) = Inr None"
    using validateEvent_accepted_fields [OF that] allowed_types_commerce by auto
  then show ?thesis
    using validateEvent_pass_warn [of p t s] by blast
qed

theorem validateEvent_accepted_witness:
  "snd (validateEvent mockOrderPlacedEvent) = Inr None \<and>
   truthy (source mockOrderPlacedEvent) \<and>
   validateEvent (envelope (JStr ''com.adobe.commerce.observer.sales_order_place_after'')
     (JStr ''urn:uuid:1234'') JUndefined) =
     ([Log WARN ''Unexpected event source: urn:uuid:1234. Proceeding with caution.''], Inr None)"
  using
    validateEvent_accepted [where p = mockOrderPlacedEvent]
    validateEvent_accepted [where
      p = "envelope (JStr ''com.adobe.commerce.observer.sales_order_place_after'')
             (JStr ''urn:uuid:1234'') JUndefined"
      and t = "''com.adobe.commerce.observer.sales_order_place_after''"
      and s = "''urn:uuid:1234''"]
    validateEvent_pass [of mockOrderPlacedEvent
      "''com.adobe.commerce.observer.sales_order_place_after''" "''com.adobe.commerce''"]
  by (simp add: envelope_def mockOrderPlacedEvent_def ALLOWED_EVENT_TYPES_def sublist_Cons_right)

text \<open>
  C8, as it is written, fails on an envelope with the \<open>source\<close> \<open>urn:uuid:1234\<close>: the
  validator returns null, and the \<open>source\<close> does not contain \<open>com.adobe.commerce\<close>.
\<close>

theorem validateEvent_accepts_foreign_source:
  "snd (validateEvent (envelope (JStr ''com.adobe.commerce.observer.sales_order_place_after'')
          (JStr ''urn:uuid:1234'') JUndefined)) = Inr None \<and>
   source (envelope (JStr ''com.adobe.commerce.observer.sales_order_place_after'')
          (JStr ''urn:uuid:1234'') JUndefined) = JStr ''urn:uuid:1234'' \<and>
   \<not> sublist ''com.adobe.commerce'' ''urn:uuid:1234''"
  by (simp add: envelope_def validateEvent_def validateCloudEventStructure_def
      validateCommerceEvent_def validateEventType_def ALLOWED_EVENT_TYPES_def sublist_Cons_right)

section \<open>Properties of the order data extractor\<close>

lemma truthy_not_nullish: "truthy v \<Longrightarrow> \<not> nullish v"
  by (cases v) auto

lemma lookup_prop_truthy: "truthy v \<Longrightarrow> lookup_prop v k = opt_prop v k"
  by (simp add: opt_prop_def truthy_not_nullish)

lemma value_falsy_order:
  "\<not> truthy (opt_prop d ''value'') \<Longrightarrow> opt_prop (opt_prop d ''value'') ''order'' = JUndefined"
  by (cases "opt_prop d ''value''") (auto simp: opt_prop_def)

lemma value_falsy_shipment:
  "\<not> truthy (opt_prop d ''value'') \<Longrightarrow> opt_prop (opt_prop d ''value'') ''shipment'' = JUndefined"
  by (cases "opt_prop d ''value''") (auto simp: opt_prop_def)

lemma extractEventData_falsy:
  assumes "\<not> truthy (opt_prop (data p) ''value'')"
  shows "snd (extractEventData p (JStr t)) =
           Inr (Inl (errorResponse 400
             (if sublist ''sales_order_shipment_save_after'' t then ''Missing shipment data''
              else ''Missing order data'')))"
  using assms value_falsy_order [OF assms] value_falsy_shipment [OF assms]
  by (simp add: extractEventData_def extractOrderData_def extractShipmentData_def js_or_def Let_def)

lemma extractEventData_order:
  assumes "truthy (opt_prop (data p) ''value'')"
    and "\<not> sublist ''sales_order_shipment_save_after'' t"
  shows "extractEventData p (JStr t) =
           ([], Inr (Inr \<lparr>orderData =
                            (if truthy (opt_prop (opt_prop (data p) ''value'') ''order'')
                             then opt_prop (opt_prop (data p) ''value'') ''order''
                             else opt_prop (data p) ''value''),
                          shipmentData = JNull\<rparr>))"
  using assms
  by (simp add: extractEventData_def extractOrderData_def js_or_def Let_def)

lemma extractEventData_shipment:
  assumes "truthy (opt_prop (data p) ''value'')"
    and "sublist ''sales_order_shipment_save_after'' t"
  shows "extractEventData p (JStr t) =
           ([], Inr (Inr \<lparr>orderData =
                            (if truthy (opt_prop (opt_prop (data p) ''value'') ''shipment'') \<and>
                                truthy (opt_prop (opt_prop (opt_prop (data p) ''value'') ''shipment'')
                                          ''order'')
                             then opt_prop (opt_prop (opt_prop (data p) ''value'') ''shipment'')
                                    ''order''
                             else if truthy (opt_prop (opt_prop (data p) ''value'') ''order'')
                             then opt_prop (opt_prop (data p) ''value'') ''order''
                             else opt_prop (data p) ''value''),
                          shipmentData =
                            (if truthy (opt_prop (opt_prop (data p) ''value'') ''shipment'')
                             then opt_prop (opt_prop (data p) ''value'') ''shipment''
                             else JNull)\<rparr>))"
  using assms
  by (simp add: extractEventData_def extractOrderData_def extractShipmentData_def js_or_def
      Let_def lookup_prop_truthy)

text \<open>
  C4. For an event type that is a string: when \<open>data.value\<close> is absent or falsy
  (undefined, null, false, 0 or the empty string; \<open>data.value.order\<close> is then absent as
  well) the extractor returns a 400, \<open>Missing shipment data\<close> for a shipment event and
  \<open>Missing order data\<close> for any other. When \<open>data.value\<close> is truthy, and an empty object is,
  no error is returned: the order is the first truthy one of \<open>shipment.order\<close> (shipment
  events with a shipment), \<open>data.value.order\<close> and \<open>data.value\<close>.
\<close>

theorem extractEventData_missing_order:
  "(\<not> truthy (opt_prop (data p) ''value'') \<longrightarrow>
      snd (extractEventData p (JStr t)) =
        Inr (Inl (errorResponse 400
          (if sublist ''sales_order_shipment_save_after'' t then ''Missing shipment data''
           else ''Missing order data'')))) \<and>
   (truthy (opt_prop (data p) ''value'') \<longrightarrow>
      (\<exists>ed. extractEventData p (JStr t) = ([], Inr (Inr ed)) \<and> truthy (orderData ed))) \<and>
   (truthy (opt_prop (data p) ''value'') \<and> \<not> sublist ''sales_order_shipment_save_after'' t \<longrightarrow>
      extractEventData p (JStr t) =
        ([], Inr (Inr \<lparr>orderData =
                         (if truthy (opt_prop (opt_prop (data p) ''value'') ''order'')
                          then opt_prop (opt_prop (data p) ''value'') ''order''
                          else opt_prop (data p) ''value''),
                       shipmentData = JNull\<rparr>))) \<and>
   (truthy (opt_prop (data p) ''value'') \<and> sublist ''sales_order_shipment_save_after'' t \<longrightarrow>
      extractEventData p (JStr t) =
        ([], Inr (Inr \<lparr>orderData =
                         (if truthy (opt_prop (opt_prop (data p) ''value'') ''shipment'') \<and>
                             truthy (opt_prop (opt_prop (opt_prop (data p) ''value'') ''shipment'')
                                       ''order'')
                          then opt_prop (opt_prop (opt_prop (data p) ''value'') ''shipment'')
                                 ''order''
                          else if truthy (opt_prop (opt_prop (data p) ''value'') ''order'')
                          then opt_prop (opt_prop (data p) ''value'') ''order''
                          else opt_prop (data p) ''value''),
                       shipmentData =
                         (if truthy (opt_prop (opt_prop (data p) ''value'') ''shipment'')
                          then opt_prop (opt_prop (data p) ''value'') ''shipment''
                          else JNull)\<rparr>)))"
proof -
  have "\<exists>ed. extractEventData p (JStr t) = ([], Inr (Inr ed)) \<and> truthy (orderData ed)"
    if v: "truthy (opt_prop (data p) ''value'')"
  proof (cases "sublist ''sales_order_shipment_save_after'' t")
    case True
    from v show ?thesis
      by (simp add: extractEventData_shipment [OF v True])
  next
    case False
    from v show ?thesis
      by (simp add: extractEventData_order [OF v False])
  qed
  then show ?thesis
    using extractEventData_falsy [of p t] extractEventData_order [of p t]
      extractEventData_shipment [of p t] by blast
qed

theorem extractEventData_missing_order_witness:
  "snd (extractEventData (envelope JUndefined JUndefined (JObj []))
          (JStr ''com.adobe.commerce.observer.sales_order_place_after'')) =
     Inr (Inl (errorResponse 400 ''Missing order data'')) \<and>
   snd (extractEventData (envelope JUndefined JUndefined (JObj []))
          (JStr ''com.adobe.commerce.observer.sales_order_shipment_save_after'')) =
     Inr (Inl (errorResponse 400 ''Missing shipment data'')) \<and>
   extractEventData mockOrderPlacedEvent
     (JStr ''com.adobe.commerce.observer.sales_order_place_after'') =
     ([], Inr (Inr \<lparr>orderData = mockOrder, shipmentData = JNull\<rparr>))"
  using
    extractEventData_missing_order [where p = "envelope JUndefined JUndefined (JObj [])"
      and t = "''com.adobe.commerce.observer.sales_order_place_after''"]
    extractEventData_missing_order [where p = "envelope JUndefined JUndefined (JObj [])"
      and t = "''com.adobe.commerce.observer.sales_order_shipment_save_after''"]
    extractEventData_missing_order [where p = mockOrderPlacedEvent
      and t = "''com.adobe.commerce.observer.sales_order_place_after''"]
  by (simp add: envelope_def mockOrderPlacedEvent_def mockOrder_def opt_prop_def
      sublist_Cons_right)

text \<open>
  C4, as it is written, fails on an envelope whose \<open>data.value\<close> is the empty object:
  \<open>data.value\<close> is empty and \<open>data.value.order\<close> is absent, and the extractor returns the
  empty object as the order, with no error.
\<close>

theorem extractEventData_empty_value:
  "opt_prop (data (envelope (JStr ''com.adobe.commerce.observer.sales_order_place_after'')
       (JStr ''com.adobe.commerce'') (JObj [(''value'', JObj [])]))) ''value'' = JObj [] \<and>
   opt_prop (JObj []) ''order'' = JUndefined \<and>
   extractEventData
     (envelope (JStr ''com.adobe.commerce.observer.sales_order_place_after'')
       (JStr ''com.adobe.commerce'') (JObj [(''value'', JObj [])]))
     (JStr ''com.adobe.commerce.observer.sales_order_place_after'') =
   ([], Inr (Inr \<lparr>orderData = JObj [], shipmentData = JNull\<rparr>))"
  by (simp add: envelope_def extractEventData_def extractOrderData_def js_or_def Let_def
      opt_prop_def sublist_Cons_right)

section \<open>Properties of the message generator\<close>



section \<open>Properties of the Twilio service\<close>

lemma formatPhoneForWhatsApp_throws:
  "formatPhoneForWhatsApp to = Inl e \<Longrightarrow> e = js_error ''phoneNumber.replace is not a function''"
  by (auto simp: formatPhoneForWhatsApp_def formatPhoneNumber_def type_error_def Let_def
      split: if_splits jsval.splits sum.splits option.splits)

lemma get_prop_throws:
  "get_prop v k = Inl e \<Longrightarrow> \<exists>msg. e = js_error msg"
  by (auto simp: get_prop_def type_error_def split: if_splits)

lemma template_throws:
  "template v = Inl e \<Longrightarrow> \<exists>msg. e = js_error msg"
  by (auto simp: template_def type_error_def split: if_splits)

text \<open>The exceptions of the \<^verbatim>\<open>try\<close> block: what the SDK throws, or an Error.\<close>

lemma sendWhatsAppMessage_try_throws:
  assumes "snd (sendWhatsAppMessage_try tw a t f to m) = Inl e"
  shows "tw a t = Inl e \<or> (\<exists>client request. tw a t = Inr client \<and> client request = Inl e) \<or>
         (\<exists>msg. e = js_error msg)"
  using assms
  by (auto simp: sendWhatsAppMessage_try_def emit_def Let_def
      split: sum.splits option.splits
      dest: formatPhoneForWhatsApp_throws get_prop_throws template_throws)

lemma sendWhatsAppMessage_try_cases:
  "snd (sendWhatsAppMessage_try tw a t f to m) =
     (case tw a t of
        Inl e \<Rightarrow> Inl e
      | Inr client \<Rightarrow>
         (case formatPhoneForWhatsApp to of
            Inl e \<Rightarrow> Inl e
          | Inr None \<Rightarrow> Inl (js_error ''Invalid phone number format'')
          | Inr (Some w) \<Rightarrow>
             (case client \<lparr>from_number = f, to_number = w, body = m\<rparr> of
                Inl e \<Rightarrow> Inl e
              | Inr tm \<Rightarrow>
                 (case get_prop tm ''sid'' of
                    Inl e \<Rightarrow> Inl e
                  | Inr sid \<Rightarrow>
                     (case template sid of
                        Inl e \<Rightarrow> Inl e
                      | Inr sid_text \<Rightarrow>
                          Inr \<lparr>success = True, messageSid = Some sid,
                               messageStatus = Some (lookup_prop tm ''status''),
                               error = None\<rparr>)))))"
  by (auto simp: sendWhatsAppMessage_try_def emit_def Let_def split: sum.splits option.splits)

lemma printable_js_or:
  "printable v \<Longrightarrow> printable (js_or v (JStr s))"
  by (simp add: js_or_def)

lemma sendWhatsAppMessage_catch_returns:
  assumes "\<not> nullish (thrown e)" and "printable (lookup_prop (thrown e) ''message'')"
  shows "snd (sendWhatsAppMessage_catch es e) =
           Inr \<lparr>success = False, messageSid = None, messageStatus = None,
                error = Some (js_or (lookup_prop (thrown e) ''message'')
                                (JStr ''Unknown Twilio error''))\<rparr>"
  using assms printable_js_or [OF assms(2), of "''Unknown Twilio error''"]
  by (simp add: sendWhatsAppMessage_catch_def get_prop_def template_def Let_def)

lemma sendWhatsAppMessage_catch_error:
  "snd (sendWhatsAppMessage_catch es (js_error msg)) =
     Inr \<lparr>success = False, messageSid = None, messageStatus = None,
          error = Some (JStr (if msg = [] then ''Unknown Twilio error'' else msg))\<rparr>"
  by (simp add: sendWhatsAppMessage_catch_def js_error_def get_prop_def template_def Let_def
      js_or_def)

lemma sendWhatsAppMessage_catch_truthy:
  assumes "snd (sendWhatsAppMessage_catch es e) = Inr r"
  shows "\<not> success r \<and> (\<exists>v. error r = Some v \<and> truthy v)"
  using assms
  by (auto simp: sendWhatsAppMessage_catch_def Let_def js_or_def split: sum.splits if_splits)

lemma sendWhatsAppMessage_missing:
  "\<not> nullish c \<Longrightarrow>
   \<not> truthy (lookup_prop c ''accountSid'') \<or> \<not> truthy (lookup_prop c ''authToken'') \<or>
   \<not> truthy (lookup_prop c ''fromNumber'') \<Longrightarrow>
   sendWhatsAppMessage tw c to m =
     ([Log WARN ''Twilio configuration missing - WhatsApp notifications will not be sent''],
      Inr \<lparr>success = False, messageSid = None, messageStatus = None,
           error = Some (JStr ''Twilio configuration missing - WhatsApp notifications will not be sent'')\<rparr>)"
  by (auto simp: sendWhatsAppMessage_def Let_def)

text \<open>With a complete configuration the result is that of the two blocks.\<close>

lemma sendWhatsAppMessage_present:
  assumes "\<not> nullish c" and "truthy (lookup_prop c ''accountSid'')"
    and "truthy (lookup_prop c ''authToken'')" and "truthy (lookup_prop c ''fromNumber'')"
  shows "snd (sendWhatsAppMessage tw c to m) =
    (case sendWhatsAppMessage_try tw (lookup_prop c ''accountSid'') (lookup_prop c ''authToken'')
            (lookup_prop c ''fromNumber'') to m of
       (es, Inr r) \<Rightarrow> Inr r
     | (es, Inl e) \<Rightarrow> snd (sendWhatsAppMessage_catch es e))"
  using assms by (auto simp: sendWhatsAppMessage_def Let_def split: prod.splits sum.splits)

lemma sendWhatsAppMessage_caught:
  assumes "\<not> nullish c" and "truthy (lookup_prop c ''accountSid'')"
    and "truthy (lookup_prop c ''authToken'')" and "truthy (lookup_prop c ''fromNumber'')"
    and "snd (sendWhatsAppMessage_try tw (lookup_prop c ''accountSid'')
               (lookup_prop c ''authToken'') (lookup_prop c ''fromNumber'') to m) = Inl e"
  shows "\<exists>es. snd (sendWhatsAppMessage tw c to m) = snd (sendWhatsAppMessage_catch es e)"
  using assms(5) unfolding sendWhatsAppMessage_present [OF assms(1-4)]
  by (auto split: prod.splits sum.splits)

lemma sendWhatsAppMessage_passed:
  assumes "\<not> nullish c" and "truthy (lookup_prop c ''accountSid'')"
    and "truthy (lookup_prop c ''authToken'')" and "truthy (lookup_prop c ''fromNumber'')"
    and "snd (sendWhatsAppMessage_try tw (lookup_prop c ''accountSid'')
               (lookup_prop c ''authToken'') (lookup_prop c ''fromNumber'') to m) = Inr r"
  shows "snd (sendWhatsAppMessage tw c to m) = Inr r"
  using assms(5) unfolding sendWhatsAppMessage_present [OF assms(1-4)]
  by (auto split: prod.splits sum.splits)

lemma sendWhatsAppMessage_try_success:
  assumes "sendWhatsAppMessage_try tw a t f to m = (es, Inr r)"
  shows "success r \<and> error r = None"
proof -
  from assms have "snd (sendWhatsAppMessage_try tw a t f to m) = Inr r" by simp
  then show ?thesis
    by (auto simp: sendWhatsAppMessage_try_cases split: sum.splits option.splits)
qed

lemma send_result_error:
  assumes "snd (sendWhatsAppMessage tw c to m) = Inr r"
  shows "(success r \<longleftrightarrow> error r = None) \<and> (\<forall>v. error r = Some v \<longrightarrow> truthy v)"
proof (cases "nullish c")
  case True
  with assms show ?thesis by (simp add: sendWhatsAppMessage_def)
next
  case c: False
  show ?thesis
  proof (cases "truthy (lookup_prop c ''accountSid'') \<and> truthy (lookup_prop c ''authToken'') \<and>
      truthy (lookup_prop c ''fromNumber'')")
    case False
    with c assms sendWhatsAppMessage_missing [of c tw to m] show ?thesis by auto
  next
    case True
    obtain es x where tr:
      "sendWhatsAppMessage_try tw (lookup_prop c ''accountSid'') (lookup_prop c ''authToken'')
         (lookup_prop c ''fromNumber'') to m = (es, x)"
      by (cases "sendWhatsAppMessage_try tw (lookup_prop c ''accountSid'')
           (lookup_prop c ''authToken'') (lookup_prop c ''fromNumber'') to m")
    show ?thesis
    proof (cases x)
      case (Inl e)
      with tr True c assms have "snd (sendWhatsAppMessage_catch es e) = Inr r"
        by (simp add: sendWhatsAppMessage_present)
      from sendWhatsAppMessage_catch_truthy [OF this] show ?thesis by auto
    next
      case (Inr r')
      with tr True c assms have "r' = r"
        by (simp add: sendWhatsAppMessage_present)
      with tr Inr sendWhatsAppMessage_try_success [of tw _ _ _ to m es r] show ?thesis
        by auto
    qed
  qed
qed

lemma js_error_catchable:
  "\<not> nullish (thrown (js_error msg)) \<and> printable (lookup_prop (thrown (js_error msg)) ''message'')"
  by (simp add: js_error_def)

lemma sendWhatsAppMessage_catch_snd:
  "snd (sendWhatsAppMessage_catch es e) = snd (sendWhatsAppMessage_catch [] e)"
  by (simp add: sendWhatsAppMessage_catch_def Let_def split: sum.splits)

lemma sendWhatsAppMessage_result:
  assumes "\<not> nullish c" and "truthy (lookup_prop c ''accountSid'')"
    and "truthy (lookup_prop c ''authToken'')" and "truthy (lookup_prop c ''fromNumber'')"
  shows "snd (sendWhatsAppMessage tw c to m) =
    (case snd (sendWhatsAppMessage_try tw (lookup_prop c ''accountSid'')
                 (lookup_prop c ''authToken'') (lookup_prop c ''fromNumber'') to m) of
       Inr r \<Rightarrow> Inr r
     | Inl e \<Rightarrow> snd (sendWhatsAppMessage_catch [] e))"
  unfolding sendWhatsAppMessage_present [OF assms]
  using sendWhatsAppMessage_catch_snd by (auto split: prod.splits sum.splits)

text \<open>
  C1. For a configuration that is not null or undefined: with a missing \<open>accountSid\<close>,
  \<open>authToken\<close> or \<open>fromNumber\<close> the adapter returns the failure with the fixed
  configuration message, and its only effect is the warning, so the SDK is not called.
  With a complete configuration, when the SDK's constructor or \<open>messages.create\<close> throws
  a value that is not null or undefined and whose \<open>message\<close> has a string form, or
  the formatting of the recipient throws, the adapter returns the failure whose \<open>error\<close>
  is the thrown value's \<open>message\<close>, or \<open>Unknown Twilio error\<close> when that message is missing
  or empty; a recipient that formats to null gives \<open>Invalid phone number format\<close>; a
  message object from the provider whose \<open>sid\<close> has a string form gives the success with
  its \<open>sid\<close> and \<open>status\<close>. When all that the SDK throws is of that kind, the adapter
  returns an object and no exception reaches the caller.
\<close>

theorem sendWhatsAppMessage_contract:
  assumes "\<not> nullish c"
  shows
  "(\<not> truthy (lookup_prop c ''accountSid'') \<or> \<not> truthy (lookup_prop c ''authToken'') \<or>
    \<not> truthy (lookup_prop c ''fromNumber'') \<longrightarrow>
      sendWhatsAppMessage tw c to m =
        ([Log WARN ''Twilio configuration missing - WhatsApp notifications will not be sent''],
         Inr \<lparr>success = False, messageSid = None, messageStatus = None,
              error = Some (JStr ''Twilio configuration missing - WhatsApp notifications will not be sent'')\<rparr>)) \<and>
   (truthy (lookup_prop c ''accountSid'') \<and> truthy (lookup_prop c ''authToken'') \<and>
    truthy (lookup_prop c ''fromNumber'') \<longrightarrow>
      ((\<forall>x. tw (lookup_prop c ''accountSid'') (lookup_prop c ''authToken'') = Inl x \<longrightarrow>
             \<not> nullish (thrown x) \<and> printable (lookup_prop (thrown x) ''message'')) \<and>
       (\<forall>cl rq x. tw (lookup_prop c ''accountSid'') (lookup_prop c ''authToken'') = Inr cl \<and>
             cl rq = Inl x \<longrightarrow>
             \<not> nullish (thrown x) \<and> printable (lookup_prop (thrown x) ''message'')) \<longrightarrow>
         (\<exists>r. snd (sendWhatsAppMessage tw c to m) = Inr r)) \<and>
      (tw (lookup_prop c ''accountSid'') (lookup_prop c ''authToken'') = Inl e \<and>
       \<not> nullish (thrown e) \<and> printable (lookup_prop (thrown e) ''message'') \<longrightarrow>
         snd (sendWhatsAppMessage tw c to m) =
           Inr \<lparr>success = False, messageSid = None, messageStatus = None,
                error = Some (js_or (lookup_prop (thrown e) ''message'')
                                (JStr ''Unknown Twilio error''))\<rparr>) \<and>
      (tw (lookup_prop c ''accountSid'') (lookup_prop c ''authToken'') = Inr client \<longrightarrow>
         (formatPhoneForWhatsApp to = Inl e \<longrightarrow>
            snd (sendWhatsAppMessage tw c to m) =
              Inr \<lparr>success = False, messageSid = None, messageStatus = None,
                   error = Some (js_or (lookup_prop (thrown e) ''message'')
                                   (JStr ''Unknown Twilio error''))\<rparr>) \<and>
         (formatPhoneForWhatsApp to = Inr None \<longrightarrow>
            snd (sendWhatsAppMessage tw c to m) =
              Inr \<lparr>success = False, messageSid = None, messageStatus = None,
                   error = Some (JStr ''Invalid phone number format'')\<rparr>) \<and>
         (formatPhoneForWhatsApp to = Inr (Some w) \<and>
          client \<lparr>from_number = lookup_prop c ''fromNumber'', to_number = w, body = m\<rparr> = Inl e \<and>
          \<not> nullish (thrown e) \<and> printable (lookup_prop (thrown e) ''message'') \<longrightarrow>
            snd (sendWhatsAppMessage tw c to m) =
              Inr \<lparr>success = False, messageSid = None, messageStatus = None,
                   error = Some (js_or (lookup_prop (thrown e) ''message'')
                                   (JStr ''Unknown Twilio error''))\<rparr>) \<and>
         (formatPhoneForWhatsApp to = Inr (Some w) \<and>
          client \<lparr>from_number = lookup_prop c ''fromNumber'', to_number = w, body = m\<rparr> = Inr tm \<and>
          \<not> nullish tm \<and> printable (lookup_prop tm ''sid'') \<longrightarrow>
            snd (sendWhatsAppMessage tw c to m) =
              Inr \<lparr>success = True, messageSid = Some (lookup_prop tm ''sid''),
                   messageStatus = Some (lookup_prop tm ''status''), error = None\<rparr>)))"
proof (intro conjI impI)
  assume "\<not> truthy (lookup_prop c ''accountSid'') \<or> \<not> truthy (lookup_prop c ''authToken'') \<or>
    \<not> truthy (lookup_prop c ''fromNumber'')"
  then show "sendWhatsAppMessage tw c to m =
        ([Log WARN ''Twilio configuration missing - WhatsApp notifications will not be sent''],
         Inr \<lparr>success = False, messageSid = None, messageStatus = None,
              error = Some (JStr ''Twilio configuration missing - WhatsApp notifications will not be sent'')\<rparr>)"
    by (rule sendWhatsAppMessage_missing [OF assms])
next
  assume p: "truthy (lookup_prop c ''accountSid'') \<and> truthy (lookup_prop c ''authToken'') \<and>
    truthy (lookup_prop c ''fromNumber'')"
  note res = sendWhatsAppMessage_result [OF assms, of tw to m]
  let ?attempt = "snd (sendWhatsAppMessage_try tw (lookup_prop c ''accountSid'')
                 (lookup_prop c ''authToken'') (lookup_prop c ''fromNumber'') to m)"
  {
    assume ok: "(\<forall>x. tw (lookup_prop c ''accountSid'') (lookup_prop c ''authToken'') = Inl x \<longrightarrow>
             \<not> nullish (thrown x) \<and> printable (lookup_prop (thrown x) ''message'')) \<and>
       (\<forall>cl rq x. tw (lookup_prop c ''accountSid'') (lookup_prop c ''authToken'') = Inr cl \<and>
             cl rq = Inl x \<longrightarrow>
             \<not> nullish (thrown x) \<and> printable (lookup_prop (thrown x) ''message''))"
    show "\<exists>r. snd (sendWhatsAppMessage tw c to m) = Inr r"
    proof (cases ?attempt)
      case (Inr r)
      with p res show ?thesis by simp
    next
      case (Inl x)
      from sendWhatsAppMessage_try_throws [OF Inl] ok js_error_catchable
      have "\<not> nullish (thrown x) \<and> printable (lookup_prop (thrown x) ''message'')"
        by blast
      then have "\<exists>r. snd (sendWhatsAppMessage_catch [] x) = Inr r"
        using sendWhatsAppMessage_catch_returns [of x "[]"] by simp
      with p res Inl show ?thesis by simp
    qed
  }
  {
    assume "tw (lookup_prop c ''accountSid'') (lookup_prop c ''authToken'') = Inl e \<and>
       \<not> nullish (thrown e) \<and> printable (lookup_prop (thrown e) ''message'')"
    then show "snd (sendWhatsAppMessage tw c to m) =
           Inr \<lparr>success = False, messageSid = None, messageStatus = None,
                error = Some (js_or (lookup_prop (thrown e) ''message'')
                                (JStr ''Unknown Twilio error''))\<rparr>"
      using p res sendWhatsAppMessage_catch_returns [of e "[]"]
      by (simp add: sendWhatsAppMessage_try_cases)
  }
  assume cl: "tw (lookup_prop c ''accountSid'') (lookup_prop c ''authToken'') = Inr client"
  {
    assume f: "formatPhoneForWhatsApp to = Inl e"
    from formatPhoneForWhatsApp_throws [OF f] js_error_catchable
    have "\<not> nullish (thrown e) \<and> printable (lookup_prop (thrown e) ''message'')" by blast
    then show "snd (sendWhatsAppMessage tw c to m) =
              Inr \<lparr>success = False, messageSid = None, messageStatus = None,
                   error = Some (js_or (lookup_prop (thrown e) ''message'')
                                   (JStr ''Unknown Twilio error''))\<rparr>"
      using p res cl f sendWhatsAppMessage_catch_returns [of e "[]"]
      by (simp add: sendWhatsAppMessage_try_cases)
  }
  {
    assume "formatPhoneForWhatsApp to = Inr None"
    then show "snd (sendWhatsAppMessage tw c to m) =
              Inr \<lparr>success = False, messageSid = None, messageStatus = None,
                   error = Some (JStr ''Invalid phone number format'')\<rparr>"
      using p res cl
      by (simp add: sendWhatsAppMessage_try_cases sendWhatsAppMessage_catch_error)
  }
  {
    assume "formatPhoneForWhatsApp to = Inr (Some w) \<and>
          client \<lparr>from_number = lookup_prop c ''fromNumber'', to_number = w, body = m\<rparr> = Inl e \<and>
          \<not> nullish (thrown e) \<and> printable (lookup_prop (thrown e) ''message'')"
    then show "snd (sendWhatsAppMessage tw c to m) =
              Inr \<lparr>success = False, messageSid = None, messageStatus = None,
                   error = Some (js_or (lookup_prop (thrown e) ''message'')
                                   (JStr ''Unknown Twilio error''))\<rparr>"
      using p res cl sendWhatsAppMessage_catch_returns [of e "[]"]
      by (simp add: sendWhatsAppMessage_try_cases)
  }
  {
    assume "formatPhoneForWhatsApp to = Inr (Some w) \<and>
          client \<lparr>from_number = lookup_prop c ''fromNumber'', to_number = w, body = m\<rparr> = Inr tm \<and>
          \<not> nullish tm \<and> printable (lookup_prop tm ''sid'')"
    then show "snd (sendWhatsAppMessage tw c to m) =
              Inr \<lparr>success = True, messageSid = Some (lookup_prop tm ''sid''),
                   messageStatus = Some (lookup_prop tm ''status''), error = None\<rparr>"
      using p res cl
      by (simp add: sendWhatsAppMessage_try_cases get_prop_def template_def)
  }
qed

theorem sendWhatsAppMessage_contract_witness:
  "snd (sendWhatsAppMessage (mockResolvedValue (JObj [(''sid'', JStr ''SM123456'')]))
          mockTwilioConfig (JStr ''1234567890'') ''hello'') =
     Inr \<lparr>success = True, messageSid = Some (JStr ''SM123456''),
          messageStatus = Some JUndefined, error = None\<rparr> \<and>
   snd (sendWhatsAppMessage (mockRejectedValue (js_error ''Twilio API Error''))
          mockTwilioConfig (JStr ''1234567890'') ''hello'') =
     Inr \<lparr>success = False, messageSid = None, messageStatus = None,
          error = Some (JStr ''Twilio API Error'')\<rparr> \<and>
   sendWhatsAppMessage (mockRejectedValue (js_error ''Twilio API Error''))
     (JObj [(''accountSid'', JStr ''test_sid'')]) (JStr ''1234567890'') ''hello'' =
     ([Log WARN ''Twilio configuration missing - WhatsApp notifications will not be sent''],
      Inr \<lparr>success = False, messageSid = None, messageStatus = None,
           error = Some (JStr ''Twilio configuration missing - WhatsApp notifications will not be sent'')\<rparr>)"
  using
    sendWhatsAppMessage_contract [where
      tw = "mockResolvedValue (JObj [(''sid'', JStr ''SM123456'')])"
      and c = mockTwilioConfig and to = "JStr ''1234567890''" and m = "''hello''"
      and client = "\<lambda>request. Inr (JObj [(''sid'', JStr ''SM123456'')])"
      and w = "''whatsapp:+11234567890''" and tm = "JObj [(''sid'', JStr ''SM123456'')]"]
    sendWhatsAppMessage_contract [where tw = "mockRejectedValue (js_error ''Twilio API Error'')"
      and c = mockTwilioConfig and to = "JStr ''1234567890''" and m = "''hello''"
      and client = "\<lambda>request. Inl (js_error ''Twilio API Error'')"
      and w = "''whatsapp:+11234567890''" and e = "js_error ''Twilio API Error''"]
    sendWhatsAppMessage_contract [where tw = "mockRejectedValue (js_error ''Twilio API Error'')"
      and c = "JObj [(''accountSid'', JStr ''test_sid'')]" and to = "JStr ''1234567890''"
      and m = "''hello''"]
  by (simp add: mockResolvedValue_def mockRejectedValue_def mockTwilioConfig_def js_error_def
      js_or_def formatPhoneForWhatsApp_def formatPhoneNumber_def replace_non_digit_plus_def
      is_digit_def)

text \<open>
  C1, as it is written, has the thrown message as the \<open>error\<close> of the failure. When
  \<open>messages.create\<close> rejects with an Error whose message is empty, the \<open>error\<close> is
  \<open>Unknown Twilio error\<close>.
\<close>

theorem sendWhatsAppMessage_empty_message:
  "lookup_prop (thrown (js_error [])) ''message'' = JStr [] \<and>
   snd (sendWhatsAppMessage (mockRejectedValue (js_error [])) mockTwilioConfig
          (JStr ''1234567890'') ''hello'') =
     Inr \<lparr>success = False, messageSid = None, messageStatus = None,
          error = Some (JStr ''Unknown Twilio error'')\<rparr>"
  by (simp add: sendWhatsAppMessage_def sendWhatsAppMessage_try_def sendWhatsAppMessage_catch_def
      emit_def Let_def js_error_def js_or_def get_prop_def template_def
      mockRejectedValue_def mockTwilioConfig_def formatPhoneForWhatsApp_def formatPhoneNumber_def
      replace_non_digit_plus_def is_digit_def)

text \<open>
  A rejection with undefined is outside that contract: the read of \<^verbatim>\<open>error.message\<close> in
  the \<^verbatim>\<open>catch\<close> block throws, and the TypeError leaves the adapter. So does the
  destructuring of a configuration that is undefined.
\<close>

lemma sendWhatsAppMessage_undefined_rejection:
  "snd (sendWhatsAppMessage (mockRejectedValue (Throw JUndefined)) mockTwilioConfig
          (JStr ''1234567890'') ''hello'') =
     Inl (type_error ''Cannot read properties of undefined (reading 'message')'')"
  "snd (sendWhatsAppMessage (mockRejectedValue (js_error ''Twilio API Error'')) JUndefined
          (JStr ''1234567890'') ''hello'') =
     Inl (type_error ''Cannot destructure property 'accountSid' of 'config' as it is undefined.'')"
  by (simp_all add: sendWhatsAppMessage_def sendWhatsAppMessage_try_def
      sendWhatsAppMessage_catch_def emit_def Let_def get_prop_def
      mockRejectedValue_def mockTwilioConfig_def formatPhoneForWhatsApp_def formatPhoneNumber_def
      replace_non_digit_plus_def is_digit_def)

section \<open>Properties of the orchestrator\<close>

text \<open>
  A notification response of the last block of \<^verbatim>\<open>main\<close> carries the result of the
  adapter, called with the customer's phone and the generated message; the effects of
  that call are effects of the block.
\<close>

lemma sendAndRespond_body:
  assumes "sendAndRespond rt p ed info ph = (tr, Inr (NotificationResponse code b))"
  shows "code = 200 \<and> customerPhone b = ph \<and>
    (\<exists>msg es r.
       generateMessageByEventType (type p) (orderData ed) (JStr (customerName info))
         (orderNumber info) (shipmentData ed) = Inr msg \<and>
       sendWhatsAppMessage (twilio rt) (twilioConfig p) ph msg = (es, Inr r) \<and>
       tr = es @ [Log INFO (''Request completed successfully. WhatsApp sent: '' @
                            toStr (JBool (success r)))] \<and>
       whatsappSent b = success r \<and> whatsappError b = error r)"
proof -
  from assms obtain msg es r where
    g: "generateMessageByEventType (type p) (orderData ed) (JStr (customerName info))
         (orderNumber info) (shipmentData ed) = Inr msg"
    and r: "sendWhatsAppMessage (twilio rt) (twilioConfig p) ph msg = (es, Inr r)"
    and t: "tr = es @ [Log INFO (''Request completed successfully. WhatsApp sent: '' @
                            toStr (JBool (success r)))]"
    and b: "whatsappSent b = success r" "customerPhone b = ph"
      "whatsappError b = (case error r of None \<Rightarrow> None
                          | Some err \<Rightarrow> if truthy err then Some err else None)"
    and c: "code = 200"
    by (auto simp: sendAndRespond_def split: sum.splits prod.splits)
  from r have "snd (sendWhatsAppMessage (twilio rt) (twilioConfig p) ph msg) = Inr r" by simp
  from send_result_error [OF this] b(3) have "whatsappError b = error r"
    by (auto split: option.splits)
  with g r t b c show ?thesis by blast
qed

lemma notify_body:
  assumes "notify rt p ed = (tr, Inr (NotificationResponse code b))"
  shows "code = 200 \<and>
    (\<exists>info msg pre es r.
       extractOrderInfo (orderData ed) = Inr info \<and>
       extractPhoneNumberFromOrder (string_gt_zero rt) (orderData ed) = Inr (customerPhone b) \<and>
       generateMessageByEventType (type p) (orderData ed) (JStr (customerName info))
         (orderNumber info) (shipmentData ed) = Inr msg \<and>
       sendWhatsAppMessage (twilio rt) (twilioConfig p) (customerPhone b) msg = (es, Inr r) \<and>
       tr = pre @ es @ [Log INFO (''Request completed successfully. WhatsApp sent: '' @
                                  toStr (JBool (success r)))] \<and>
       whatsappSent b = success r \<and> whatsappError b = error r)"
proof -
  from assms obtain info ph where
    i: "extractOrderInfo (orderData ed) = Inr info"
    and ph: "extractPhoneNumberFromOrder (string_gt_zero rt) (orderData ed) = Inr ph"
    and s: "snd (sendAndRespond rt p ed info ph) = Inr (NotificationResponse code b)"
    and t: "tr = [Log INFO (''Processing order '' @ toStr (orderNumber info) @
                            '' for customer '' @ toStr (customerEmail info))] @
                 fst (sendAndRespond rt p ed info ph)"
    by (auto simp: notify_def emit_def split: sum.splits if_splits)
  from s have "sendAndRespond rt p ed info ph =
      (fst (sendAndRespond rt p ed info ph), Inr (NotificationResponse code b))"
    by (metis prod.collapse)
  from sendAndRespond_body [OF this] obtain msg es r where
    "code = 200" "customerPhone b = ph"
    "generateMessageByEventType (type p) (orderData ed) (JStr (customerName info))
         (orderNumber info) (shipmentData ed) = Inr msg"
    "sendWhatsAppMessage (twilio rt) (twilioConfig p) ph msg = (es, Inr r)"
    "fst (sendAndRespond rt p ed info ph) =
       es @ [Log INFO (''Request completed successfully. WhatsApp sent: '' @
                       toStr (JBool (success r)))]"
    "whatsappSent b = success r" "whatsappError b = error r"
    by blast
  with i ph t show ?thesis by auto
qed

lemma main_try_body:
  assumes "main_try rt p = (tr, Inr (NotificationResponse code b))"
  shows "code = 200 \<and>
    (\<exists>ed info msg pre es r.
       snd (extractEventData p (type p)) = Inr (Inr ed) \<and>
       extractOrderInfo (orderData ed) = Inr info \<and>
       extractPhoneNumberFromOrder (string_gt_zero rt) (orderData ed) = Inr (customerPhone b) \<and>
       generateMessageByEventType (type p) (orderData ed) (JStr (customerName info))
         (orderNumber info) (shipmentData ed) = Inr msg \<and>
       sendWhatsAppMessage (twilio rt) (twilioConfig p) (customerPhone b) msg = (es, Inr r) \<and>
       tr = pre @ es @ [Log INFO (''Request completed successfully. WhatsApp sent: '' @
                                  toStr (JBool (success r)))] \<and>
       whatsappSent b = success r \<and> whatsappError b = error r)"
proof -
  from assms obtain ed tr0 where
    e: "snd (extractEventData p (type p)) = Inr (Inr ed)"
    and n: "snd (notify rt p ed) = Inr (NotificationResponse code b)"
    and t: "tr = tr0 @ fst (notify rt p ed)"
    by (auto simp: main_try_def emit_def
        split: sum.splits if_splits prod.splits option.splits)
  from n have "notify rt p ed = (fst (notify rt p ed), Inr (NotificationResponse code b))"
    by (metis prod.collapse)
  from notify_body [OF this] obtain info msg pre es r where
    "code = 200"
    "extractOrderInfo (orderData ed) = Inr info"
    "extractPhoneNumberFromOrder (string_gt_zero rt) (orderData ed) = Inr (customerPhone b)"
    "generateMessageByEventType (type p) (orderData ed) (JStr (customerName info))
         (orderNumber info) (shipmentData ed) = Inr msg"
    "sendWhatsAppMessage (twilio rt) (twilioConfig p) (customerPhone b) msg = (es, Inr r)"
    "fst (notify rt p ed) =
       pre @ es @ [Log INFO (''Request completed successfully. WhatsApp sent: '' @
                             toStr (JBool (success r)))]"
    "whatsappSent b = success r" "whatsappError b = error r"
    by blast
  with e t have "code = 200 \<and>
       snd (extractEventData p (type p)) = Inr (Inr ed) \<and>
       extractOrderInfo (orderData ed) = Inr info \<and>
       extractPhoneNumberFromOrder (string_gt_zero rt) (orderData ed) = Inr (customerPhone b) \<and>
       generateMessageByEventType (type p) (orderData ed) (JStr (customerName info))
         (orderNumber info) (shipmentData ed) = Inr msg \<and>
       sendWhatsAppMessage (twilio rt) (twilioConfig p) (customerPhone b) msg = (es, Inr r) \<and>
       tr = (tr0 @ pre) @ es @ [Log INFO (''Request completed successfully. WhatsApp sent: '' @
                                  toStr (JBool (success r)))] \<and>
       whatsappSent b = success r \<and> whatsappError b = error r"
    by simp
  then show ?thesis by blast
qed

lemma main_body:
  assumes "main rt p = (tr, NotificationResponse code b)"
  shows "code = 200 \<and>
    (\<exists>ed info msg pre es r.
       snd (extractEventData p (type p)) = Inr (Inr ed) \<and>
       extractOrderInfo (orderData ed) = Inr info \<and>
       extractPhoneNumberFromOrder (string_gt_zero rt) (orderData ed) = Inr (customerPhone b) \<and>
       generateMessageByEventType (type p) (orderData ed) (JStr (customerName info))
         (orderNumber info) (shipmentData ed) = Inr msg \<and>
       sendWhatsAppMessage (twilio rt) (twilioConfig p) (customerPhone b) msg = (es, Inr r) \<and>
       tr = pre @ es @ [Log INFO (''Request completed successfully. WhatsApp sent: '' @
                                  toStr (JBool (success r)))] \<and>
       whatsappSent b = success r \<and> whatsappError b = error r)"
proof -
  from assms have "main_try rt p = (tr, Inr (NotificationResponse code b))"
    by (auto simp: main_def split: prod.splits sum.splits)
  then show ?thesis by (rule main_try_body)
qed

text \<open>
  C6. When the \<open>challenge\<close> of the input is truthy, \<open>main\<close> returns status 200 with the
  challenge as the body, whatever the other fields are. Its effects are three calls of
  the logger: no validation error is logged and the SDK is not called.
\<close>

theorem main_challenge:
  "truthy (challenge p) \<Longrightarrow>
   main rt p =
     ([Log INFO ''Processing order notification event'', Log DEBUG (stringParameters rt p),
       Log INFO ''Received webhook verification challenge''],
      ChallengeResponse 200 (challenge p))"
  by (simp add: main_def main_try_def emit_def)

theorem main_challenge_witness:
  "main (mockRuntime (mockRejectedValue (js_error ''Twilio API Error'')))
     (mockOrderPlacedEvent\<lparr>challenge := JStr ''abc123''\<rparr>) =
     ([Log INFO ''Processing order notification event'', Log DEBUG ''{}'',
       Log INFO ''Received webhook verification challenge''],
      ChallengeResponse 200 (JStr ''abc123''))"
  using main_challenge [where p = "mockOrderPlacedEvent\<lparr>challenge := JStr ''abc123''\<rparr>"
      and rt = "mockRuntime (mockRejectedValue (js_error ''Twilio API Error''))"]
  by (simp add: mockRuntime_def)

text \<open>
  C9. Every response of \<open>main\<close> that carries the notification body has status 200 and
  is built from the result of the adapter: the run extracted an order, its information
  and the customer's phone, generated a message, and called \<open>sendWhatsAppMessage\<close> with
  the Twilio parameters of the input, that phone and that message; the effects of the
  call are among the effects of the run; \<open>whatsappSent\<close> is the \<open>success\<close> of the result
  and \<open>whatsappError\<close> is its \<open>error\<close>, present exactly when it is set. The adapter sets
  \<open>error\<close> exactly when \<open>success\<close> is false, and to a truthy value. So \<open>whatsappError\<close> is
  present exactly when \<open>whatsappSent\<close> is false.
\<close>

theorem main_whatsappError_iff:
  "(main rt p = (tr, NotificationResponse code b) \<longrightarrow>
      code = 200 \<and>
      (\<exists>ed info msg pre es r.
         snd (extractEventData p (type p)) = Inr (Inr ed) \<and>
         extractOrderInfo (orderData ed) = Inr info \<and>
         extractPhoneNumberFromOrder (string_gt_zero rt) (orderData ed) =
           Inr (customerPhone b) \<and>
         generateMessageByEventType (type p) (orderData ed) (JStr (customerName info))
           (orderNumber info) (shipmentData ed) = Inr msg \<and>
         sendWhatsAppMessage (twilio rt) (twilioConfig p) (customerPhone b) msg = (es, Inr r) \<and>
         tr = pre @ es @ [Log INFO (''Request completed successfully. WhatsApp sent: '' @
                                    toStr (JBool (success r)))] \<and>
         whatsappSent b = success r \<and> whatsappError b = error r) \<and>
      (whatsappError b \<noteq> None \<longleftrightarrow> \<not> whatsappSent b)) \<and>
   (snd (sendWhatsAppMessage tw c to m) = Inr r' \<longrightarrow>
      (success r' \<longleftrightarrow> error r' = None) \<and> (\<forall>v. error r' = Some v \<longrightarrow> truthy v))"
proof -
  have first: "code = 200 \<and>
      (\<exists>ed info msg pre es r.
         snd (extractEventData p (type p)) = Inr (Inr ed) \<and>
         extractOrderInfo (orderData ed) = Inr info \<and>
         extractPhoneNumberFromOrder (string_gt_zero rt) (orderData ed) =
           Inr (customerPhone b) \<and>
         generateMessageByEventType (type p) (orderData ed) (JStr (customerName info))
           (orderNumber info) (shipmentData ed) = Inr msg \<and>
         sendWhatsAppMessage (twilio rt) (twilioConfig p) (customerPhone b) msg = (es, Inr r) \<and>
         tr = pre @ es @ [Log INFO (''Request completed successfully. WhatsApp sent: '' @
                                    toStr (JBool (success r)))] \<and>
         whatsappSent b = success r \<and> whatsappError b = error r) \<and>
      (whatsappError b \<noteq> None \<longleftrightarrow> \<not> whatsappSent b)"
    if m: "main rt p = (tr, NotificationResponse code b)"
  proof -
    note body = main_body [OF m]
    from body obtain msg es r where
      r: "sendWhatsAppMessage (twilio rt) (twilioConfig p) (customerPhone b) msg = (es, Inr r)"
      and b: "whatsappSent b = success r" "whatsappError b = error r"
      by blast
    from r have
      "snd (sendWhatsAppMessage (twilio rt) (twilioConfig p) (customerPhone b) msg) = Inr r"
      by simp
    from send_result_error [OF this] b have "whatsappError b \<noteq> None \<longleftrightarrow> \<not> whatsappSent b"
      by simp
    with body show ?thesis by blast
  qed
  have second: "(success r' \<longleftrightarrow> error r' = None) \<and> (\<forall>v. error r' = Some v \<longrightarrow> truthy v)"
    if "snd (sendWhatsAppMessage tw c to m) = Inr r'"
    using send_result_error [OF that] .
  from first second show ?thesis by blast
qed

theorem main_whatsappError_iff_witness:
  "main (mockRuntime (mockRejectedValue (js_error ''Twilio API Error''))) mockOrderPlacedEvent =
     ([Log INFO ''Processing order notification event'', Log DEBUG ''{}'',
       Log INFO ''Processing event type: com.adobe.commerce.observer.sales_order_place_after'',
       Log INFO ''Processing order 000000008 for customer test@example.com'',
       Log WARN ''Twilio configuration missing - WhatsApp notifications will not be sent'',
       Log INFO ''Request completed successfully. WhatsApp sent: false''],
      NotificationResponse 200
       \<lparr>body_success = True, body_message = ''Order notification processed'',
        body_orderNumber = JStr ''000000008'', customerPhone = JStr ''1234567890'',
        whatsappSent = False,
        whatsappError =
          Some (JStr ''Twilio configuration missing - WhatsApp notifications will not be sent'')\<rparr>) \<and>
   snd (sendWhatsAppMessage (mockRejectedValue (js_error ''Twilio API Error'')) mockTwilioConfig
          (JStr ''1234567890'') ''hello'') =
     Inr \<lparr>success = False, messageSid = None, messageStatus = None,
          error = Some (JStr ''Twilio API Error'')\<rparr>"
  using main_whatsappError_iff [where
      rt = "mockRuntime (mockRejectedValue (js_error ''Twilio API Error''))"
      and p = mockOrderPlacedEvent and code = 200
      and tr = "[Log INFO ''Processing order notification event'', Log DEBUG ''{}'',
       Log INFO ''Processing event type: com.adobe.commerce.observer.sales_order_place_after'',
       Log INFO ''Processing order 000000008 for customer test@example.com'',
       Log WARN ''Twilio configuration missing - WhatsApp notifications will not be sent'',
       Log INFO ''Request completed successfully. WhatsApp sent: false'']"
      and b = "\<lparr>body_success = True, body_message = ''Order notification processed'',
        body_orderNumber = JStr ''000000008'', customerPhone = JStr ''1234567890'',
        whatsappSent = False,
        whatsappError =
          Some (JStr ''Twilio configuration missing - WhatsApp notifications will not be sent'')\<rparr>"
      and tw = "mockRejectedValue (js_error ''Twilio API Error'')" and c = mockTwilioConfig
      and to = "JStr ''1234567890''" and m = "''hello''"
      and r' = "\<lparr>success = False, messageSid = None, messageStatus = None,
          error = Some (JStr ''Twilio API Error'')\<rparr>"]
  by (simp add: main_def main_try_def emit_def mockRuntime_def mockOrderPlacedEvent_def envelope_def
      mockOrder_def validateEvent_def validateCloudEventStructure_def
      validateCommerceEvent_def validateEventType_def ALLOWED_EVENT_TYPES_def sublist_Cons_right
      extractEventData_def extractOrderData_def extractShipmentData_def js_or_def opt_prop_def
      notify_def extractOrderInfo_def get_prop_def extractPhoneNumberFromOrder_def Let_def
      sendAndRespond_def generateMessageByEventType_def generateOrderPlacedMessage_def
      sendWhatsAppMessage_def twilioConfig_def trim_def is_space_def
      sendWhatsAppMessage_try_def sendWhatsAppMessage_catch_def template_def js_error_def
      mockRejectedValue_def mockTwilioConfig_def
      formatPhoneForWhatsApp_def formatPhoneNumber_def replace_non_digit_plus_def is_digit_def)

end
